theory Spec2Isabelle
  imports Complex_Main
begin

section \<open>Host numbers\<close>

text \<open>
  The interpreter's \<open>Float\<close> values are the host's binary64 numbers. A number is modelled
  by its exact value: a finite number carries the rational it denotes, and the two
  infinities, the negative zero and NaN are separate constructors. Operations that are
  exact on binary64 (comparison, sign, negation, absolute value, floor, truncation) are
  defined here; operations that round or that the host only approximates are fields of the
  record \<open>host\<close> further down, so every theorem holds for any host arithmetic.
\<close>

datatype number = Fin rat | NegZero | PInf | NInf | NaN

text \<open>\<open>x === 0\<close> on numbers: true of both zeros.\<close>

definition num_is_zero :: "number \<Rightarrow> bool" where
  "num_is_zero x = (x = Fin 0 \<or> x = NegZero)"

text \<open>\<open>x < y\<close> on numbers: false as soon as one side is NaN.\<close>

fun num_lt :: "number \<Rightarrow> number \<Rightarrow> bool" where
  "num_lt NaN y = False"
| "num_lt x NaN = False"
| "num_lt (Fin a) (Fin b) = (a < b)"
| "num_lt (Fin a) NegZero = (a < 0)"
| "num_lt NegZero (Fin b) = (0 < b)"
| "num_lt NegZero NegZero = False"
| "num_lt x NInf = False"
| "num_lt PInf y = False"
| "num_lt NInf y = True"
| "num_lt x PInf = True"

definition num_gt :: "number \<Rightarrow> number \<Rightarrow> bool" where
  "num_gt x y = num_lt y x"

text \<open>\<open>x === y\<close> on numbers: NaN differs from everything, the two zeros are equal.\<close>

fun num_eq :: "number \<Rightarrow> number \<Rightarrow> bool" where
  "num_eq NaN y = False"
| "num_eq x NaN = False"
| "num_eq (Fin a) (Fin b) = (a = b)"
| "num_eq (Fin a) NegZero = (a = 0)"
| "num_eq NegZero (Fin b) = (b = 0)"
| "num_eq x y = (x = y)"

definition num_le :: "number \<Rightarrow> number \<Rightarrow> bool" where
  "num_le x y = (num_lt x y \<or> num_eq x y)"

definition num_ge :: "number \<Rightarrow> number \<Rightarrow> bool" where
  "num_ge x y = (num_lt y x \<or> num_eq x y)"

text \<open>Unary minus.\<close>

fun num_neg :: "number \<Rightarrow> number" where
  "num_neg (Fin a) = (if a = 0 then NegZero else Fin (- a))"
| "num_neg NegZero = Fin 0"
| "num_neg PInf = NInf"
| "num_neg NInf = PInf"
| "num_neg NaN = NaN"

text \<open>\<open>Math.abs\<close>, \<open>Math.sign\<close>, \<open>Math.floor\<close>, \<open>Math.trunc\<close>, \<open>Number.isInteger\<close>.\<close>

fun num_abs :: "number \<Rightarrow> number" where
  "num_abs (Fin a) = Fin \<bar>a\<bar>"
| "num_abs NegZero = Fin 0"
| "num_abs PInf = PInf"
| "num_abs NInf = PInf"
| "num_abs NaN = NaN"

fun num_sign :: "number \<Rightarrow> number" where
  "num_sign (Fin a) = Fin (sgn a)"
| "num_sign NegZero = NegZero"
| "num_sign PInf = Fin 1"
| "num_sign NInf = Fin (- 1)"
| "num_sign NaN = NaN"

fun num_floor :: "number \<Rightarrow> number" where
  "num_floor (Fin a) = Fin (of_int \<lfloor>a\<rfloor>)"
| "num_floor x = x"

definition rat_trunc :: "rat \<Rightarrow> int" where
  "rat_trunc a = (if 0 \<le> a then \<lfloor>a\<rfloor> else \<lceil>a\<rceil>)"

fun num_trunc :: "number \<Rightarrow> number" where
  "num_trunc (Fin a) = (if - 1 < a \<and> a < 0 then NegZero else Fin (of_int (rat_trunc a)))"
| "num_trunc x = x"

fun num_isInteger :: "number \<Rightarrow> bool" where
  "num_isInteger (Fin a) = (of_int \<lfloor>a\<rfloor> = a)"
| "num_isInteger NegZero = True"
| "num_isInteger x = False"

text \<open>A small non-negative integer as a number (array lengths, literal constants).\<close>

definition num_of_nat :: "nat \<Rightarrow> number" where
  "num_of_nat n = Fin (of_nat n)"


section \<open>BigInt primitives\<close>

text \<open>
  The interpreter's integers are the host's \<open>BigInt\<close>: unbounded, with \<open>/\<close> and \<open>%\<close>
  truncating toward zero (the remainder takes the sign of the dividend).
\<close>

definition bigint_div :: "int \<Rightarrow> int \<Rightarrow> int" where
  "bigint_div a b = sgn a * sgn b * (\<bar>a\<bar> div \<bar>b\<bar>)"

definition bigint_rem :: "int \<Rightarrow> int \<Rightarrow> int" where
  "bigint_rem a b = sgn a * (\<bar>a\<bar> mod \<bar>b\<bar>)"

text \<open>Decimal rendering, as \<open>BigInt.prototype.toString\<close> gives it.\<close>

definition digit_char :: "nat \<Rightarrow> char" where
  "digit_char d = char_of (48 + d)"

fun nat_toString_aux :: "nat \<Rightarrow> nat \<Rightarrow> string \<Rightarrow> string" where
  "nat_toString_aux 0 n acc = acc"
| "nat_toString_aux (Suc fuel) n acc =
     (if n < 10 then digit_char n # acc
      else nat_toString_aux fuel (n div 10) (digit_char (n mod 10) # acc))"

definition nat_toString :: "nat \<Rightarrow> string" where
  "nat_toString n = nat_toString_aux (Suc n) n []"

definition bigint_toString :: "int \<Rightarrow> string" where
  "bigint_toString i = (if i < 0 then CHR ''-'' # nat_toString (nat (- i)) else nat_toString (nat i))"


section \<open>Token types\<close>

text \<open>
  \<open>TokenType\<close> is a numeric enumeration in the source; a token type is its number.
  Only the members the tokenizer's layout rules and the evaluator read are named here.
\<close>

type_synonym TokenType = nat

definition ENDMARKER :: TokenType where "ENDMARKER = 0"
definition NAME :: TokenType where "NAME = 1"
definition NUMBER :: TokenType where "NUMBER = 2"
definition BIGINT :: TokenType where "BIGINT = 3"
definition STRING :: TokenType where "STRING = 4"
definition NEWLINE :: TokenType where "NEWLINE = 5"
definition INDENT :: TokenType where "INDENT = 6"
definition DEDENT :: TokenType where "DEDENT = 7"
definition LPAR :: TokenType where "LPAR = 8"
definition RPAR :: TokenType where "RPAR = 9"
definition COLON :: TokenType where "COLON = 10"
definition DOUBLECOLON :: TokenType where "DOUBLECOLON = 11"
definition COMMA :: TokenType where "COMMA = 12"
definition PLUS :: TokenType where "PLUS = 13"
definition MINUS :: TokenType where "MINUS = 14"
definition BANG :: TokenType where "BANG = 15"
definition STAR :: TokenType where "STAR = 16"
definition SLASH :: TokenType where "SLASH = 17"
definition LESS :: TokenType where "LESS = 20"
definition GREATER :: TokenType where "GREATER = 21"
definition EQUAL :: TokenType where "EQUAL = 22"
definition PERCENT :: TokenType where "PERCENT = 23"
definition DOUBLEEQUAL :: TokenType where "DOUBLEEQUAL = 24"
definition NOTEQUAL :: TokenType where "NOTEQUAL = 25"
definition LESSEQUAL :: TokenType where "LESSEQUAL = 26"
definition GREATEREQUAL :: TokenType where "GREATEREQUAL = 27"
definition DOUBLESTAR :: TokenType where "DOUBLESTAR = 28"
definition COMPLEX :: TokenType where "COMPLEX = 29"
definition AND :: TokenType where "AND = 30"
definition OR :: TokenType where "OR = 31"
definition FOR :: TokenType where "FOR = 32"
definition WHILE :: TokenType where "WHILE = 33"
definition NONE :: TokenType where "NONE = 34"
definition TRUE :: TokenType where "TRUE = 35"
definition FALSE :: TokenType where "FALSE = 36"
definition IS :: TokenType where "IS = 37"
definition NOT :: TokenType where "NOT = 38"
definition ISNOT :: TokenType where "ISNOT = 39"
definition PASS :: TokenType where "PASS = 40"
definition DEF :: TokenType where "DEF = 41"
definition LAMBDA :: TokenType where "LAMBDA = 42"
definition FROM :: TokenType where "FROM = 43"
definition DOUBLESLASH :: TokenType where "DOUBLESLASH = 44"
definition BREAK :: TokenType where "BREAK = 45"
definition CONTINUE :: TokenType where "CONTINUE = 46"
definition RETURN :: TokenType where "RETURN = 47"
definition ASSERT :: TokenType where "ASSERT = 48"
definition IMPORT :: TokenType where "IMPORT = 49"
definition GLOBAL :: TokenType where "GLOBAL = 50"
definition NONLOCAL :: TokenType where "NONLOCAL = 51"
definition IF :: TokenType where "IF = 52"
definition ELSE :: TokenType where "ELSE = 53"
definition ELIF :: TokenType where "ELIF = 54"
definition IN :: TokenType where "IN = 55"
definition NOTIN :: TokenType where "NOTIN = 56"


section \<open>Complex numbers\<close>

text \<open>\<open>PyComplexNumber\<close>: a pair of host numbers.\<close>

record PyComplexNumber =
  real_part :: number
  imag_part :: number


section \<open>Abstract syntax\<close>

text \<open>
  The classes of \<open>ExprNS\<close> and \<open>StmtNS\<close>, one constructor per class, with the fields the
  evaluator reads. Name tokens are kept as their lexeme and operator tokens as their type.
  The start and end tokens of a node only feed the rendering of diagnostics and are left out.
  \<open>Literal\<close> holds a host number, boolean or string, or anything else (\<open>LitOther\<close>).
\<close>

datatype literal = LitNumber number | LitBoolean bool | LitString string | LitOther

datatype expr =
    NoneExpr
  | BigIntLiteral string
  | ComplexExpr PyComplexNumber
  | Binary expr TokenType expr
  | Compare expr TokenType expr
  | BoolOp expr TokenType expr
  | Grouping expr
  | Literal literal
  | Unary TokenType expr
  | Ternary expr expr expr
  | Lambda "string list" expr
  | MultiLambda "string list" "stmt list"
  | Variable string
  | Call expr "expr list"
and stmt =
    Indent
  | Dedent
  | Pass
  | Assign string expr
  | AnnAssign string expr expr
  | Break
  | Continue
  | Return "expr option"
  | FromImport string "string list"
  | Global string
  | NonLocal string
  | Assert expr
  | IfStmt expr "stmt list" else_block
  | While expr "stmt list"
  | For string expr "stmt list"
  | FunctionDef string "string list" "stmt list"
  | SimpleExpr expr
  | FileInput "stmt list"
and else_block =
    NoElse
  | ElseBody "stmt list"
  | ElseNode stmt


section \<open>Runtime values, errors and the machine state\<close>

text \<open>
  A closure keeps the node it was made from (\<open>FunctionDef\<close> or \<open>Lambda\<close>), the address of
  the environment it captured and the names assigned in its body. Environments are objects
  shared between closures and the environment stack and updated in place, so they live in
  a store (\<open>envStore\<close>) and are referred to by address.
\<close>

datatype closure_node =
    FunctionDefNode string "string list" "stmt list"
  | LambdaNode "string list" expr

record PyClosure =
  closure_id :: string
  node :: closure_node
  environment :: "nat option"
  localVariables :: "string set"

datatype builtin = BuiltinPrint | BuiltinInt

text \<open>
  What the Stash and the frames hold: the tagged objects \<open>{type, value}\<close>, closures,
  foreign closures (their id and the index of their host function) and the host
  functions registered as built-ins. A slot of the Stash or of a frame holds such a value
  or the host's \<open>undefined\<close>, which is \<open>None\<close> here: \<open>pop\<close> on an empty stack returns
  it, and a parameter without argument is bound to it.
\<close>

datatype Value =
    VUndefined
  | VBool bool
  | VBigInt int
  | VNumber number
  | VString string
  | VComplex PyComplexNumber
  | VError string
  | VClosure PyClosure
  | VJsClosure string nat
  | VBuiltin builtin

text \<open>The \<open>type\<close> field of a value; host functions have none.\<close>

fun type_tag :: "Value \<Rightarrow> string option" where
  "type_tag VUndefined = Some ''undefined''"
| "type_tag (VBool b) = Some ''bool''"
| "type_tag (VBigInt i) = Some ''bigint''"
| "type_tag (VNumber n) = Some ''number''"
| "type_tag (VString s) = Some ''string''"
| "type_tag (VComplex c) = Some ''complex''"
| "type_tag (VError m) = Some ''error''"
| "type_tag (VClosure c) = Some ''PyClosure''"
| "type_tag (VJsClosure i f) = Some ''JsClosure''"
| "type_tag (VBuiltin f) = None"

text \<open>
  Everything the code throws. The runtime error classes keep the arguments of their
  constructors; the other constructors are the host's \<open>Error\<close>, \<open>TypeError\<close>,
  \<open>RangeError\<close> and \<open>SyntaxError\<close> with their message.
\<close>

datatype exn =
    UnsupportedOperandTypeError "string option" "string option" string
  | ZeroDivisionError
  | UnboundLocalError string
  | NameError string
  | JsError string
  | JsTypeError string
  | JsRangeError string
  | JsSyntaxError string

text \<open>Host values, as foreign functions receive and return them.\<close>

datatype JsValue =
    JsBigInt int
  | JsNumber number
  | JsString string
  | JsBoolean bool
  | JsNull
  | JsUndef
  | JsFunction builtin
  | JsOther string

datatype branch_target =
    StatementSequence "stmt list"
  | TargetExpr expr
  | TargetStmt stmt

datatype Instr =
    UnOpInstr TokenType
  | BinOpInstr TokenType
  | BoolOpInstr TokenType
  | AssmtInstr string bool bool
  | AppInstr nat
  | ResetInstr
  | EndOfFunctionBodyInstr
  | BranchInstr branch_target "branch_target option"
  | PopInstr
  | OtherInstr string

datatype ControlItem = ExprItem expr | StmtItem stmt | InstrItem Instr

record Environment =
  name :: string
  tail :: "nat option"
  head :: "string \<rightharpoonup> Value option"
  env_id :: string
  closure :: "PyClosure option"

text \<open>
  \<open>PyContext\<close> with its \<open>runtime\<close>. Control and Stash are lists with the top first;
  \<open>environments\<close> holds addresses into \<open>envStore\<close>, the current frame first, and
  \<open>envCount\<close> is the next free address. The environment tree, the heaps and
  \<open>runtime.nodes\<close> are bookkeeping no evaluator rule reads and are left out.
\<close>

record Context =
  control :: "ControlItem list"
  stash :: "Value option list"
  environments :: "nat list"
  envStore :: "nat \<Rightarrow> Environment"
  envCount :: nat
  objectCount :: nat
  errors :: "exn list"
  py_output :: string
  isRunning :: bool
  envStepsTotal :: nat

text \<open>
  The host: arithmetic on numbers that rounds, the mathematical functions, conversions
  between numbers, integers and strings, the functions behind foreign closures, and the
  rendering of a runtime error's \<open>message\<close> (source line, caret line, hint).
\<close>

record host =
  h_add :: "number \<Rightarrow> number \<Rightarrow> number"
  h_sub :: "number \<Rightarrow> number \<Rightarrow> number"
  h_mul :: "number \<Rightarrow> number \<Rightarrow> number"
  h_div :: "number \<Rightarrow> number \<Rightarrow> number"
  h_rem :: "number \<Rightarrow> number \<Rightarrow> number"
  h_pow :: "number \<Rightarrow> number \<Rightarrow> number"
  h_sqrt :: "number \<Rightarrow> number"
  h_atan2 :: "number \<Rightarrow> number \<Rightarrow> number"
  h_log :: "number \<Rightarrow> number"
  h_log10 :: "number \<Rightarrow> number"
  h_exp :: "number \<Rightarrow> number"
  h_cos :: "number \<Rightarrow> number"
  h_sin :: "number \<Rightarrow> number"
  h_numberOfBigInt :: "int \<Rightarrow> number"
  h_numberOfString :: "string \<Rightarrow> number"
  h_numberToString :: "number \<Rightarrow> string"
  h_toExponential :: "number \<Rightarrow> nat option \<Rightarrow> string"
  h_toFixed :: "number \<Rightarrow> nat \<Rightarrow> string"
  h_foreign :: "nat \<Rightarrow> JsValue list \<Rightarrow> exn + JsValue"
  h_message :: "exn \<Rightarrow> string"

text \<open>\<open>error.message\<close>.\<close>

fun exn_message :: "host \<Rightarrow> exn \<Rightarrow> string" where
  "exn_message h (JsError m) = m"
| "exn_message h (JsTypeError m) = m"
| "exn_message h (JsRangeError m) = m"
| "exn_message h (JsSyntaxError m) = m"
| "exn_message h e = h_message h e"

text \<open>Throwing: the state reached at the throw is kept beside the exception.\<close>

definition throw :: "Context \<Rightarrow> exn \<Rightarrow> (exn \<times> Context) + 'a" where
  "throw ctx e = Inl (e, ctx)"

definition pyHandleRuntimeError :: "Context \<Rightarrow> exn \<Rightarrow> (exn \<times> Context) + 'a" where
  "pyHandleRuntimeError ctx e = Inl (e, ctx\<lparr>errors := errors ctx @ [e]\<rparr>)"

section \<open>Strings\<close>

definition is_digit :: "char \<Rightarrow> bool" where
  "is_digit c = ((48::nat) \<le> of_char c \<and> (of_char c :: nat) \<le> 57)"

definition sq :: string where
  "sq = [CHR 0x27]"

text \<open>Comparison of strings by code units, as \<open><\<close> on host strings.\<close>

fun str_lt :: "string \<Rightarrow> string \<Rightarrow> bool" where
  "str_lt [] [] = False"
| "str_lt [] (y # ys) = True"
| "str_lt (x # xs) [] = False"
| "str_lt (x # xs) (y # ys) =
     (if (of_char x :: nat) < of_char y then True
      else if (of_char y :: nat) < of_char x then False
      else str_lt xs ys)"

text \<open>
  \<open>a.localeCompare(b)\<close>, reduced to its sign. The code calls it on two strings of decimal
  digits of the same length, where it is the comparison by code units.
\<close>

definition localeCompare :: "string \<Rightarrow> string \<Rightarrow> int" where
  "localeCompare a b = (if str_lt a b then - 1 else if str_lt b a then 1 else 0)"

text \<open>\<open>s.padEnd(n, '0')\<close> and \<open>s.replace(/^0+/, '')\<close>.\<close>

definition padEnd0 :: "string \<Rightarrow> nat \<Rightarrow> string" where
  "padEnd0 s n = s @ replicate (n - length s) CHR ''0''"

definition trimLeadingZeros :: "string \<Rightarrow> string" where
  "trimLeadingZeros s = dropWhile (\<lambda>c. c = CHR ''0'') s"

text \<open>Digits in a base up to 16, and the host's \<open>BigInt(string)\<close>.\<close>

definition digit_val :: "char \<Rightarrow> nat option" where
  "digit_val c =
     (let n = (of_char c :: nat) in
      if 48 \<le> n \<and> n \<le> 57 then Some (n - 48)
      else if 97 \<le> n \<and> n \<le> 102 then Some (n - 87)
      else if 65 \<le> n \<and> n \<le> 70 then Some (n - 55)
      else None)"

fun parse_digits :: "nat \<Rightarrow> string \<Rightarrow> nat \<Rightarrow> nat option" where
  "parse_digits base [] acc = Some acc"
| "parse_digits base (c # cs) acc =
     (case digit_val c of
        None \<Rightarrow> None
      | Some d \<Rightarrow> if d < base then parse_digits base cs (acc * base + d) else None)"

definition parse_nat :: "nat \<Rightarrow> string \<Rightarrow> nat option" where
  "parse_nat base s = (if s = [] then None else parse_digits base s 0)"

definition bigint_of_string :: "string \<Rightarrow> exn + int" where
  "bigint_of_string s =
     (let bad = Inl (JsSyntaxError (''Cannot convert '' @ s @ '' to a BigInt''));
          conv = (\<lambda>sign r. case r of None \<Rightarrow> bad | Some n \<Rightarrow> Inr (sign * int n))
      in if s = [] then Inr 0
         else if take 2 s = ''0x'' \<or> take 2 s = ''0X'' then conv 1 (parse_nat 16 (drop 2 s))
         else if take 2 s = ''0o'' \<or> take 2 s = ''0O'' then conv 1 (parse_nat 8 (drop 2 s))
         else if take 2 s = ''0b'' \<or> take 2 s = ''0B'' then conv 1 (parse_nat 2 (drop 2 s))
         else if hd s = CHR ''-'' then conv (- 1) (parse_nat 10 (tl s))
         else if hd s = CHR ''+'' then conv 1 (parse_nat 10 (tl s))
         else conv 1 (parse_nat 10 s))"

text \<open>
  The host's \<open>BigInt(number)\<close>: only integral numbers convert. The message of the
  \<open>RangeError\<close> names the number as the host prints it; for a finite number that is not
  integral, which no caller passes, the digits are left out.
\<close>

definition not_an_integer :: "string \<Rightarrow> exn" where
  "not_an_integer n =
     JsRangeError (''The number '' @ n @ '' cannot be converted to a BigInt because it is not an integer'')"

fun bigint_of_number :: "number \<Rightarrow> exn + int" where
  "bigint_of_number (Fin a) = (if of_int \<lfloor>a\<rfloor> = a then Inr \<lfloor>a\<rfloor> else Inl (not_an_integer []))"
| "bigint_of_number NegZero = Inr 0"
| "bigint_of_number PInf = Inl (not_an_integer ''Infinity'')"
| "bigint_of_number NInf = Inl (not_an_integer ''-Infinity'')"
| "bigint_of_number NaN = Inl (not_an_integer ''NaN'')"


section \<open>Complex arithmetic\<close>

definition complex_fromString :: "host \<Rightarrow> string \<Rightarrow> exn + PyComplexNumber" where
  "complex_fromString h str =
     (let invalid = Inl (JsError (''Invalid complex string: '' @ str)) in
      if \<not> (CHR ''j'' \<in> set str \<or> CHR ''J'' \<in> set str) then
        (let realVal = h_numberOfString h str in
         if realVal = NaN then invalid
         else Inr \<lparr>real_part = realVal, imag_part = Fin 0\<rparr>)
      else if last str = CHR ''j'' \<or> last str = CHR ''J'' then
        (let numericPart = butlast str in
         if numericPart = [] \<or> numericPart = ''+'' \<or> numericPart = ''-'' then
           Inr \<lparr>real_part = Fin 0, imag_part = Fin (if numericPart = ''-'' then - 1 else 1)\<rparr>
         else
           (let imagVal = h_numberOfString h numericPart in
            if imagVal = NaN then invalid
            else Inr \<lparr>real_part = Fin 0, imag_part = imagVal\<rparr>))
      else invalid)"

text \<open>
  \<open>PyComplexNumber.fromValue(v.value)\<close>. A boolean is neither a number nor a BigInt and
  goes through \<open>fromString\<close>, where \<open>Number(true)\<close> is 1; an object without \<open>value\<close> field
  gives \<open>Number(undefined)\<close>, which is NaN.
\<close>

fun complex_fromValue :: "host \<Rightarrow> Value \<Rightarrow> exn + PyComplexNumber" where
  "complex_fromValue h (VComplex c) = Inr c"
| "complex_fromValue h (VNumber n) = Inr \<lparr>real_part = n, imag_part = Fin 0\<rparr>"
| "complex_fromValue h (VBigInt i) = Inr \<lparr>real_part = h_numberOfBigInt h i, imag_part = Fin 0\<rparr>"
| "complex_fromValue h (VString s) = complex_fromString h s"
| "complex_fromValue h (VBool b) = Inr \<lparr>real_part = Fin (if b then 1 else 0), imag_part = Fin 0\<rparr>"
| "complex_fromValue h v = Inl (JsError ''Invalid complex string: undefined'')"

definition complex_add :: "host \<Rightarrow> PyComplexNumber \<Rightarrow> PyComplexNumber \<Rightarrow> PyComplexNumber" where
  "complex_add h x y =
     \<lparr>real_part = h_add h (real_part x) (real_part y), imag_part = h_add h (imag_part x) (imag_part y)\<rparr>"

definition complex_sub :: "host \<Rightarrow> PyComplexNumber \<Rightarrow> PyComplexNumber \<Rightarrow> PyComplexNumber" where
  "complex_sub h x y =
     \<lparr>real_part = h_sub h (real_part x) (real_part y), imag_part = h_sub h (imag_part x) (imag_part y)\<rparr>"

definition complex_mul :: "host \<Rightarrow> PyComplexNumber \<Rightarrow> PyComplexNumber \<Rightarrow> PyComplexNumber" where
  "complex_mul h x y =
     \<lparr>real_part = h_sub h (h_mul h (real_part x) (real_part y)) (h_mul h (imag_part x) (imag_part y)),
      imag_part = h_add h (h_mul h (real_part x) (imag_part y)) (h_mul h (imag_part x) (real_part y))\<rparr>"

definition complex_div :: "host \<Rightarrow> PyComplexNumber \<Rightarrow> PyComplexNumber \<Rightarrow> exn + PyComplexNumber" where
  "complex_div h x y =
     (let denominator = h_add h (h_mul h (real_part y) (real_part y)) (h_mul h (imag_part y) (imag_part y)) in
      if num_is_zero denominator then Inl (JsError ''Division by zero in complex number.'')
      else
        (let a = real_part x; b = imag_part x; c = real_part y; d = imag_part y in
         if num_lt (num_abs d) (num_abs c) then
           (let ratio = h_div h d c; denom = h_add h c (h_mul h d ratio) in
            Inr \<lparr>real_part = h_div h (h_add h a (h_mul h b ratio)) denom,
                 imag_part = h_div h (h_sub h b (h_mul h a ratio)) denom\<rparr>)
         else
           (let ratio = h_div h c d; denom = h_add h d (h_mul h c ratio) in
            Inr \<lparr>real_part = h_div h (h_add h (h_mul h a ratio) b) denom,
                 imag_part = h_div h (h_sub h (h_mul h b ratio) a) denom\<rparr>)))"

definition complex_pow :: "host \<Rightarrow> PyComplexNumber \<Rightarrow> PyComplexNumber \<Rightarrow> exn + PyComplexNumber" where
  "complex_pow h x y =
     (let a = real_part x; b = imag_part x; A = real_part y; B = imag_part y;
          r = h_sqrt h (h_add h (h_mul h a a) (h_mul h b b));
          theta = h_atan2 h b a in
      if num_is_zero r then
        (if num_lt A (Fin 0) \<or> \<not> num_eq B (Fin 0)
         then Inl (JsError ''0 cannot be raised to a negative or complex power'')
         else Inr \<lparr>real_part = Fin 0, imag_part = Fin 0\<rparr>)
      else
        (let logR = h_log h r;
             realExpPart = h_sub h (h_mul h A logR) (h_mul h B theta);
             imagExpPart = h_add h (h_mul h B logR) (h_mul h A theta);
             expOfReal = h_exp h realExpPart in
         Inr \<lparr>real_part = h_mul h expOfReal (h_cos h imagExpPart),
              imag_part = h_mul h expOfReal (h_sin h imagExpPart)\<rparr>))"

definition complex_equals :: "PyComplexNumber \<Rightarrow> PyComplexNumber \<Rightarrow> bool" where
  "complex_equals x y = (num_eq (real_part x) (real_part y) \<and> num_eq (imag_part x) (imag_part y))"

section \<open>Operators\<close>

definition typeTranslator :: "string option \<Rightarrow> string" where
  "typeTranslator t =
     (if t = Some ''bigint'' then ''int''
      else if t = Some ''number'' then ''float''
      else if t = Some ''boolean'' then ''bool''
      else if t = Some ''bool'' then ''bool''
      else if t = Some ''string'' then ''str''
      else if t = Some ''complex'' then ''complex''
      else if t = Some ''undefined'' then ''NoneType''
      else ''unknown'')"

definition operatorTranslator :: "TokenType \<Rightarrow> string" where
  "operatorTranslator operator =
     (if operator = PLUS then ''+''
      else if operator = MINUS then ''-''
      else if operator = STAR then ''*''
      else if operator = SLASH then ''/''
      else if operator = DOUBLESLASH then ''//''
      else if operator = PERCENT then ''%''
      else if operator = DOUBLESTAR then ''**''
      else if operator = LESS then ''<''
      else if operator = GREATER then ''>''
      else if operator = DOUBLEEQUAL then ''==''
      else if operator = NOTEQUAL then ''!=''
      else if operator = LESSEQUAL then ''<=''
      else if operator = GREATEREQUAL then ''>=''
      else if operator = NOT then ''not''
      else if operator = AND then ''and''
      else if operator = OR then ''or''
      else nat_toString operator)"

text \<open>
  \<open>pythonMod\<close> has one branch for BigInt arguments and one for numbers; its callers pass
  either two BigInts or two numbers, so each branch is a function of its own here. The
  callers throw \<open>ZeroDivisionError\<close> before calling it with a zero divisor.
\<close>

definition pythonMod_bigint :: "int \<Rightarrow> int \<Rightarrow> int" where
  "pythonMod_bigint a b =
     (let m = bigint_rem a b in
      if (m < 0 \<and> b > 0) \<or> (m > 0 \<and> b < 0) then m + b else m)"

definition pythonMod_number :: "host \<Rightarrow> number \<Rightarrow> number \<Rightarrow> number" where
  "pythonMod_number h a b =
     (let m = h_rem h a b in
      if (num_lt m (Fin 0) \<and> num_gt b (Fin 0)) \<or> (num_gt m (Fin 0) \<and> num_lt b (Fin 0))
      then h_add h m b else m)"

fun isFalsy :: "Value \<Rightarrow> bool" where
  "isFalsy (VBigInt i) = (i = 0)"
| "isFalsy (VNumber n) = num_is_zero n"
| "isFalsy (VBool b) = (\<not> b)"
| "isFalsy (VString s) = (s = [])"
| "isFalsy (VComplex c) = (num_is_zero (real_part c) \<and> num_is_zero (imag_part c))"
| "isFalsy VUndefined = True"
| "isFalsy v = False"

definition evaluateBoolExpression ::
  "Context \<Rightarrow> TokenType \<Rightarrow> Value \<Rightarrow> Value \<Rightarrow> (exn \<times> Context) + Value" where
  "evaluateBoolExpression ctx operator left right =
     (if operator = OR then Inr (if \<not> isFalsy left then left else right)
      else if operator = AND then Inr (if isFalsy left then left else right)
      else pyHandleRuntimeError ctx
             (UnsupportedOperandTypeError (Some (typeTranslator (type_tag left)))
                (Some (typeTranslator (type_tag right))) (operatorTranslator operator)))"

definition evaluateUnaryExpression ::
  "Context \<Rightarrow> TokenType \<Rightarrow> Value \<Rightarrow> (exn \<times> Context) + Value" where
  "evaluateUnaryExpression ctx operator v =
     (let unsupported = pyHandleRuntimeError ctx
            (UnsupportedOperandTypeError (type_tag v) (Some []) (operatorTranslator operator)) in
      if operator = NOT then Inr (VBool (isFalsy v))
      else if operator = MINUS then
        (case v of
           VNumber n \<Rightarrow> Inr (VNumber (num_neg n))
         | VBigInt i \<Rightarrow> Inr (VBigInt (- i))
         | VBool b \<Rightarrow> Inr (VBigInt (if b then - 1 else 0))
         | VComplex c \<Rightarrow>
             Inr (VComplex \<lparr>real_part = num_neg (real_part c), imag_part = num_neg (imag_part c)\<rparr>)
         | _ \<Rightarrow> unsupported)
      else if operator = PLUS then
        (case v of
           VNumber n \<Rightarrow> Inr v
         | VBigInt i \<Rightarrow> Inr v
         | VComplex c \<Rightarrow> Inr v
         | VBool b \<Rightarrow> Inr (VBigInt (if b then 1 else 0))
         | _ \<Rightarrow> unsupported)
      else Inr (VError ''Unreachable in evaluateUnaryExpression''))"


subsection \<open>Comparison of integers and floats\<close>

text \<open>The match of \<open>/^([\d.]+)e([+\-]\d+)$/\<close>: mantissa and signed exponent.\<close>

definition matchExponential :: "string \<Rightarrow> (string \<times> string) option" where
  "matchExponential s =
     (let mant = takeWhile (\<lambda>c. c \<noteq> CHR ''e'') s;
          rest = dropWhile (\<lambda>c. c \<noteq> CHR ''e'') s;
          ex = tl rest in
      if mant \<noteq> [] \<and> list_all (\<lambda>c. is_digit c \<or> c = CHR ''.'') mant \<and> rest \<noteq> [] \<and> ex \<noteq> []
         \<and> (hd ex = CHR ''+'' \<or> hd ex = CHR ''-'') \<and> tl ex \<noteq> [] \<and> list_all is_digit (tl ex)
      then Some (mant, ex) else None)"

text \<open>\<open>parseInt(s, 10)\<close> on a sign followed by digits.\<close>

definition parseInt10 :: "string \<Rightarrow> int" where
  "parseInt10 s =
     (case parse_nat 10 (tl s) of
        None \<Rightarrow> 0
      | Some n \<Rightarrow> if hd s = CHR ''-'' then - int n else int n)"

definition approximateBigIntString :: "host \<Rightarrow> number \<Rightarrow> nat \<Rightarrow> string" where
  "approximateBigIntString h num precision =
     (let s = h_toExponential h num (Some precision) in
      case matchExponential s of
        None \<Rightarrow> h_numberToString h (num_floor num)
      | Some (mant, ex) \<Rightarrow>
          (let mantissaStr = remove1 CHR ''.'' mant;
               exp = parseInt10 ex;
               len = length mantissaStr;
               integerLen = 1 + exp in
           if integerLen \<le> 0 then ''0''
           else if int len < integerLen then padEnd0 mantissaStr (nat integerLen)
           else take (nat integerLen) mantissaStr))"

text \<open>The part of \<open>pyCompare\<close> that compares a BigInt with a number.\<close>

definition pyCompare_bigint_number :: "host \<Rightarrow> int \<Rightarrow> number \<Rightarrow> int" where
  "pyCompare_bigint_number h int_val float_val =
     (if float_val = PInf then - 1
      else if float_val = NInf then 1
      else
        (let signInt = (if int_val < 0 then - 1 else if int_val > 0 then 1 else 0) :: int;
             signFlt = num_sign float_val in
         if num_lt (Fin (of_int signInt)) signFlt then - 1
         else if num_gt (Fin (of_int signInt)) signFlt then 1
         else if signInt = 0 \<and> num_is_zero signFlt then 0
         else
           (let absInt = (if int_val < 0 then - int_val else int_val) in
            if absInt \<le> 9007199254740991 then
              (let intAsNum = h_numberOfBigInt h int_val;
                   diff = h_sub h intAsNum float_val in
               if num_is_zero diff then 0 else if num_lt diff (Fin 0) then - 1 else 1)
            else if num_is_zero float_val then signInt
            else
              (let absFlt = num_abs float_val;
                   exponent = num_floor (h_log10 h absFlt);
                   intStr = bigint_toString absInt;
                   intDigits = length intStr;
                   integerPartLen = h_add h exponent (Fin 1) in
               if num_lt integerPartLen (num_of_nat intDigits) then (if signInt > 0 then 1 else - 1)
               else if num_gt integerPartLen (num_of_nat intDigits) then (if signInt > 0 then - 1 else 1)
               else
                 (let floatApproxStr = approximateBigIntString h absFlt 30;
                      aTrim = trimLeadingZeros intStr;
                      bTrim = trimLeadingZeros floatApproxStr in
                  if length aTrim > length bTrim then (if signInt > 0 then 1 else - 1)
                  else if length aTrim < length bTrim then (if signInt > 0 then - 1 else 1)
                  else
                    (let cmp = localeCompare aTrim bTrim in
                     if cmp = 0 then 0
                     else if cmp > 0 then (if signInt > 0 then 1 else - 1)
                     else (if signInt > 0 then - 1 else 1)))))))"

fun pyCompare :: "host \<Rightarrow> Value \<Rightarrow> Value \<Rightarrow> int" where
  "pyCompare h (VBigInt a) (VBigInt b) = (if a < b then - 1 else if a > b then 1 else 0)"
| "pyCompare h (VNumber a) (VNumber b) = (if num_lt a b then - 1 else if num_gt a b then 1 else 0)"
| "pyCompare h (VBigInt a) (VNumber b) = pyCompare_bigint_number h a b"
| "pyCompare h (VNumber a) (VBigInt b) = - pyCompare_bigint_number h b a"
| "pyCompare h v w = 0"


subsection \<open>Binary expressions\<close>

text \<open>The four blocks of \<open>evaluateBinaryExpression\<close>, in the order the code tries them.\<close>

definition is_arithmetic :: "TokenType \<Rightarrow> bool" where
  "is_arithmetic operator =
     (operator = PLUS \<or> operator = MINUS \<or> operator = STAR \<or> operator = SLASH
      \<or> operator = DOUBLESLASH \<or> operator = PERCENT \<or> operator = DOUBLESTAR)"

definition is_comparison :: "TokenType \<Rightarrow> bool" where
  "is_comparison operator =
     (operator = DOUBLEEQUAL \<or> operator = NOTEQUAL \<or> operator = LESS
      \<or> operator = LESSEQUAL \<or> operator = GREATER \<or> operator = GREATEREQUAL)"

definition evaluateBinaryExpression_complex ::
  "host \<Rightarrow> Context \<Rightarrow> TokenType \<Rightarrow> Value \<Rightarrow> Value \<Rightarrow> (exn \<times> Context) + Value" where
  "evaluateBinaryExpression_complex h ctx operator left right =
     (let unsupported = pyHandleRuntimeError ctx
            (UnsupportedOperandTypeError (type_tag left) (type_tag right) (operatorTranslator operator));
          rt = type_tag right in
      if rt \<noteq> Some ''complex'' \<and> rt \<noteq> Some ''number'' \<and> rt \<noteq> Some ''bigint'' \<and> rt \<noteq> Some ''bool''
      then unsupported
      else
        (case complex_fromValue h left of
           Inl e \<Rightarrow> throw ctx e
         | Inr leftComplex \<Rightarrow>
             (case complex_fromValue h right of
                Inl e \<Rightarrow> throw ctx e
              | Inr rightComplex \<Rightarrow>
                  if operator = PLUS then Inr (VComplex (complex_add h leftComplex rightComplex))
                  else if operator = MINUS then Inr (VComplex (complex_sub h leftComplex rightComplex))
                  else if operator = STAR then Inr (VComplex (complex_mul h leftComplex rightComplex))
                  else if operator = SLASH then
                    (case complex_div h leftComplex rightComplex of
                       Inl e \<Rightarrow> throw ctx e | Inr r \<Rightarrow> Inr (VComplex r))
                  else if operator = DOUBLESTAR then
                    (case complex_pow h leftComplex rightComplex of
                       Inl e \<Rightarrow> throw ctx e | Inr r \<Rightarrow> Inr (VComplex r))
                  else if operator = DOUBLEEQUAL then Inr (VBool (complex_equals leftComplex rightComplex))
                  else if operator = NOTEQUAL then Inr (VBool (\<not> complex_equals leftComplex rightComplex))
                  else unsupported)))"

definition evaluateBinaryExpression_none ::
  "Context \<Rightarrow> TokenType \<Rightarrow> Value \<Rightarrow> Value \<Rightarrow> (exn \<times> Context) + Value" where
  "evaluateBinaryExpression_none ctx operator left right =
     (if operator = DOUBLEEQUAL then Inr (VBool (type_tag left = type_tag right))
      else if operator = NOTEQUAL then Inr (VBool (type_tag left \<noteq> type_tag right))
      else pyHandleRuntimeError ctx
             (UnsupportedOperandTypeError (type_tag left) (type_tag right) (operatorTranslator operator)))"

definition evaluateBinaryExpression_string ::
  "Context \<Rightarrow> TokenType \<Rightarrow> Value \<Rightarrow> Value \<Rightarrow> (exn \<times> Context) + Value" where
  "evaluateBinaryExpression_string ctx operator left right =
     (let unsupported = pyHandleRuntimeError ctx
            (UnsupportedOperandTypeError (type_tag left) (type_tag right) (operatorTranslator operator)) in
      case (left, right) of
        (VString l, VString r) \<Rightarrow>
          if operator = PLUS then Inr (VString (l @ r))
          else if operator = DOUBLEEQUAL then Inr (VBool (l = r))
          else if operator = NOTEQUAL then Inr (VBool (l \<noteq> r))
          else if operator = LESS then Inr (VBool (str_lt l r))
          else if operator = LESSEQUAL then Inr (VBool (str_lt l r \<or> l = r))
          else if operator = GREATER then Inr (VBool (str_lt r l))
          else if operator = GREATEREQUAL then Inr (VBool (str_lt r l \<or> l = r))
          else unsupported
      | _ \<Rightarrow> unsupported)"

text \<open>
  \<open>Number(leftNum)\<close>: a boolean has become the number 1 or 0, a BigInt is converted, and
  an object without \<open>value\<close> field gives NaN.
\<close>

fun toNumber :: "host \<Rightarrow> Value \<Rightarrow> number" where
  "toNumber h (VBool b) = Fin (if b then 1 else 0)"
| "toNumber h (VNumber n) = n"
| "toNumber h (VBigInt i) = h_numberOfBigInt h i"
| "toNumber h v = NaN"

text \<open>\<open>leftType\<close>: the type tag, with \<open>bool\<close> replaced by \<open>number\<close>.\<close>

definition operand_type :: "Value \<Rightarrow> string option" where
  "operand_type v = (if type_tag v = Some ''bool'' then Some ''number'' else type_tag v)"

definition evaluateBinaryExpression_numeric ::
  "host \<Rightarrow> Context \<Rightarrow> TokenType \<Rightarrow> Value \<Rightarrow> Value \<Rightarrow> (exn \<times> Context) + Value" where
  "evaluateBinaryExpression_numeric h ctx operator left right =
     (let leftType = operand_type left;
          rightType = operand_type right;
          zeroDivision = pyHandleRuntimeError ctx ZeroDivisionError in
      if is_arithmetic operator then
        (if leftType = Some ''number'' \<or> rightType = Some ''number'' then
           (let l = toNumber h left; r = toNumber h right in
            if operator = PLUS then Inr (VNumber (h_add h l r))
            else if operator = MINUS then Inr (VNumber (h_sub h l r))
            else if operator = STAR then Inr (VNumber (h_mul h l r))
            else if operator = SLASH then
              (if num_is_zero r then zeroDivision else Inr (VNumber (h_div h l r)))
            else if operator = DOUBLESLASH then
              (if num_is_zero r then zeroDivision else Inr (VNumber (num_floor (h_div h l r))))
            else if operator = PERCENT then
              (if num_is_zero r then zeroDivision else Inr (VNumber (pythonMod_number h l r)))
            else
              (if num_is_zero l \<and> num_lt r (Fin 0) then zeroDivision
               else Inr (VNumber (h_pow h l r))))
         else
           (case (left, right) of
              (VBigInt l, VBigInt r) \<Rightarrow>
                if operator = PLUS then Inr (VBigInt (l + r))
                else if operator = MINUS then Inr (VBigInt (l - r))
                else if operator = STAR then Inr (VBigInt (l * r))
                else if operator = SLASH then
                  (if r = 0 then zeroDivision
                   else Inr (VNumber (h_div h (h_numberOfBigInt h l) (h_numberOfBigInt h r))))
                else if operator = DOUBLESLASH then
                  (if r = 0 then zeroDivision
                   else Inr (VBigInt (bigint_div (l - pythonMod_bigint l r) r)))
                else if operator = PERCENT then
                  (if r = 0 then zeroDivision else Inr (VBigInt (pythonMod_bigint l r)))
                else
                  (if l = 0 \<and> r < 0 then zeroDivision
                   else if r < 0 then
                     Inr (VNumber (h_pow h (h_numberOfBigInt h l) (h_numberOfBigInt h r)))
                   else Inr (VBigInt (l ^ nat r)))
            | _ \<Rightarrow> Inr (VError ''todo error'')))
      else if is_comparison operator then
        (let cmp = pyCompare h left right in
         Inr (VBool
           (if operator = DOUBLEEQUAL then cmp = 0
            else if operator = NOTEQUAL then cmp \<noteq> 0
            else if operator = LESS then cmp < 0
            else if operator = LESSEQUAL then cmp \<le> 0
            else if operator = GREATER then cmp > 0
            else cmp \<ge> 0)))
      else Inr (VError ''todo error''))"

definition evaluateBinaryExpression ::
  "host \<Rightarrow> Context \<Rightarrow> TokenType \<Rightarrow> Value \<Rightarrow> Value \<Rightarrow> (exn \<times> Context) + Value" where
  "evaluateBinaryExpression h ctx operator left right =
     (if type_tag left = Some ''complex'' \<or> type_tag right = Some ''complex''
      then evaluateBinaryExpression_complex h ctx operator left right
      else if type_tag left = Some ''undefined'' \<or> type_tag right = Some ''undefined''
      then evaluateBinaryExpression_none ctx operator left right
      else if type_tag left = Some ''string'' \<or> type_tag right = Some ''string''
      then evaluateBinaryExpression_string ctx operator left right
      else evaluateBinaryExpression_numeric h ctx operator left right)"


section \<open>Text output\<close>

definition num_1e16 :: number where
  "num_1e16 = Fin 10000000000000000"

text \<open>The number the literal \<open>1e-4\<close> denotes in binary64.\<close>

definition num_1e_4 :: number where
  "num_1e_4 = Fin (7378697629483821 / 73786976294838206464)"

text \<open>\<open>s.replace(/e([+-])(\d)$/, 'e$10$2')\<close>: a one-digit exponent gets a leading zero.\<close>

definition padExponent :: "string \<Rightarrow> string" where
  "padExponent s =
     (let n = length s in
      if 3 \<le> n \<and> s ! (n - 3) = CHR ''e'' \<and> (s ! (n - 2) = CHR ''+'' \<or> s ! (n - 2) = CHR ''-'')
         \<and> is_digit (s ! (n - 1))
      then take (n - 1) s @ ''0'' @ drop (n - 1) s
      else s)"

definition toPythonFloat :: "host \<Rightarrow> number \<Rightarrow> string" where
  "toPythonFloat h num =
     (if num = NegZero then ''-0.0''
      else if num_is_zero num then ''0.0''
      else if num = PInf then ''inf''
      else if num = NInf then ''-inf''
      else if num = NaN then ''nan''
      else if num_ge (num_abs num) num_1e16 \<or> (\<not> num_is_zero num \<and> num_lt (num_abs num) num_1e_4)
        then padExponent (h_toExponential h num None)
      else if num_isInteger num then h_toFixed h num 1
      else h_numberToString h num)"

definition toPythonComplexFloat :: "host \<Rightarrow> number \<Rightarrow> string" where
  "toPythonComplexFloat h num =
     (if num = PInf then ''inf''
      else if num = NInf then ''-inf''
      else if num_ge (num_abs num) num_1e16 \<or> (\<not> num_is_zero num \<and> num_lt (num_abs num) num_1e_4)
        then padExponent (h_toExponential h num None)
      else h_numberToString h num)"

definition complex_toString :: "host \<Rightarrow> PyComplexNumber \<Rightarrow> string" where
  "complex_toString h c =
     (if num_is_zero (real_part c) then h_numberToString h (imag_part c) @ ''j''
      else
        (let sign = (if num_ge (imag_part c) (Fin 0) then ''+'' else []) in
         ''('' @ toPythonComplexFloat h (real_part c) @ sign
           @ toPythonComplexFloat h (imag_part c) @ ''j)''))"

fun toPythonString :: "host \<Rightarrow> Value option \<Rightarrow> string" where
  "toPythonString h None = ''None''"
| "toPythonString h (Some (VBigInt i)) = bigint_toString i"
| "toPythonString h (Some (VComplex c)) = complex_toString h c"
| "toPythonString h (Some (VNumber n)) = toPythonFloat h n"
| "toPythonString h (Some (VBool b)) = (if b then ''True'' else ''False'')"
| "toPythonString h (Some (VError m)) = m"
| "toPythonString h (Some (VClosure c)) =
     ''<function '' @
       (case node c of
          FunctionDefNode nm ps body \<Rightarrow> if nm = [] then ''(anonymous)'' else nm
        | LambdaNode ps body \<Rightarrow> ''(anonymous)'') @ ''>''"
| "toPythonString h (Some (VString s)) = s"
| "toPythonString h (Some v) = ''None''"


section \<open>Built-in functions\<close>

fun join_space :: "string list \<Rightarrow> string" where
  "join_space [] = []"
| "join_space [x] = x"
| "join_space (x # y # ys) = x @ '' '' @ join_space (y # ys)"

definition BuiltInFunctions_print :: "host \<Rightarrow> Context \<Rightarrow> Value option list \<Rightarrow> Value \<times> Context" where
  "BuiltInFunctions_print h ctx args =
     (VUndefined,
      ctx\<lparr>py_output := py_output ctx @ join_space (map (toPythonString h) args) @ [CHR 0x0A]\<rparr>)"

definition BuiltInFunctions_int :: "Context \<Rightarrow> Value option list \<Rightarrow> (exn \<times> Context) + Value" where
  "BuiltInFunctions_int ctx args =
     (case args of
        [] \<Rightarrow> Inr (VBigInt 0)
      | arg # rest \<Rightarrow>
          (case arg of
             None \<Rightarrow> throw ctx (JsTypeError ''Cannot read properties of undefined (reading type)'')
           | Some (VNumber n) \<Rightarrow>
               (case bigint_of_number (num_trunc n) of
                  Inl e \<Rightarrow> throw ctx e
                | Inr i \<Rightarrow> Inr (VBigInt i))
           | Some (VBigInt i) \<Rightarrow> Inr (VBigInt i)
           | Some v \<Rightarrow>
               Inr (VError
                 (''TypeError: int() argument must be a string, a bytes-like object or a real number, not ''
                  @ sq @ (case type_tag v of None \<Rightarrow> ''undefined'' | Some t \<Rightarrow> t) @ sq))))"

definition builtIns :: "string \<Rightarrow> builtin option" where
  "builtIns nm =
     (if nm = ''print'' then Some BuiltinPrint
      else if nm = ''_int'' then Some BuiltinInt
      else None)"


section \<open>Marshalling\<close>

fun marshalToPy :: "JsValue \<Rightarrow> exn + Value" where
  "marshalToPy (JsBigInt i) = Inr (VBigInt i)"
| "marshalToPy (JsNumber n) = Inr (VNumber n)"
| "marshalToPy (JsString s) = Inr (VString s)"
| "marshalToPy (JsBoolean b) = Inr (VBool b)"
| "marshalToPy JsNull = Inr VUndefined"
| "marshalToPy JsUndef = Inr VUndefined"
| "marshalToPy (JsFunction f) =
     Inl (JsError (''Marshalling of Javascript type '' @ sq @ ''function is not implemented.''))"
| "marshalToPy (JsOther t) =
     Inl (JsError (''Marshalling of Javascript type '' @ sq @ t @ '' is not implemented.''))"

fun unmarshalFromPy :: "Value option \<Rightarrow> exn + JsValue" where
  "unmarshalFromPy None = Inr JsUndef"
| "unmarshalFromPy (Some (VBuiltin f)) = Inr (JsFunction f)"
| "unmarshalFromPy (Some (VBigInt i)) = Inr (JsBigInt i)"
| "unmarshalFromPy (Some (VNumber n)) = Inr (JsNumber n)"
| "unmarshalFromPy (Some (VString s)) = Inr (JsString s)"
| "unmarshalFromPy (Some (VBool b)) = Inr (JsBoolean b)"
| "unmarshalFromPy (Some (VComplex c)) =
     Inl (JsError ''Passing complex number to external functions is not supported.'')"
| "unmarshalFromPy (Some v) =
     Inl (JsError (''Unmarshalling of py-slang type '' @ sq
        @ (case type_tag v of None \<Rightarrow> ''undefined'' | Some t \<Rightarrow> t) @ sq
        @ '' is not supported for external functions.''))"

text \<open>\<open>args.map(unmarshalFromPy)\<close>: the first argument that cannot be passed throws.\<close>

fun unmarshalAll :: "Value option list \<Rightarrow> exn + JsValue list" where
  "unmarshalAll [] = Inr []"
| "unmarshalAll (a # as) =
     (case unmarshalFromPy a of
        Inl e \<Rightarrow> Inl e
      | Inr j \<Rightarrow> (case unmarshalAll as of Inl e \<Rightarrow> Inl e | Inr js \<Rightarrow> Inr (j # js)))"

text \<open>\<open>JsClosure.call\<close>, for the foreign closure whose host function has index \<open>f\<close>.\<close>

definition JsClosure_call :: "host \<Rightarrow> nat \<Rightarrow> Value option list \<Rightarrow> exn + Value" where
  "JsClosure_call h f args =
     (case unmarshalAll args of
        Inl e \<Rightarrow> Inl e
      | Inr jsArgument \<Rightarrow>
          (case h_foreign h f jsArgument of
             Inl e \<Rightarrow> Inl e
           | Inr result \<Rightarrow> marshalToPy result))"

text \<open>
  A value of the interpreter seen as a host value: a tagged object or a closure is an
  \<open>object\<close> for \<open>typeof\<close>, a built-in is a function.
\<close>

fun as_host :: "Value \<Rightarrow> JsValue" where
  "as_host (VBuiltin f) = JsFunction f"
| "as_host v = JsOther ''object''"


section \<open>Environments\<close>

definition uniqueId :: "Context \<Rightarrow> string \<times> Context" where
  "uniqueId ctx = (nat_toString (objectCount ctx), ctx\<lparr>objectCount := objectCount ctx + 1\<rparr>)"

definition currentEnvironment :: "Context \<Rightarrow> nat option" where
  "currentEnvironment ctx = (case environments ctx of [] \<Rightarrow> None | a # rest \<Rightarrow> Some a)"

definition popEnvironment :: "Context \<Rightarrow> Context" where
  "popEnvironment ctx = ctx\<lparr>environments := drop 1 (environments ctx)\<rparr>"

text \<open>\<open>pushEnvironment\<close>: the new frame gets the next free address.\<close>

definition pushEnvironment :: "Context \<Rightarrow> Environment \<Rightarrow> Context" where
  "pushEnvironment ctx env =
     ctx\<lparr>envStore := (envStore ctx)(envCount ctx := env),
         envCount := envCount ctx + 1,
         environments := envCount ctx # environments ctx\<rparr>"

text \<open>
  The head of a frame is a host object made by \<open>{}\<close>; the maps here hold its own
  properties. \<open>createEnvironment\<close> fills it by the assignments
  \<open>environment.head[paramName] = args[index]\<close>: a parameter beyond the arguments gets
  \<open>undefined\<close>, and the assignment to the name \<open>__proto__\<close> goes to the setter of the
  prototype and makes no own property.
\<close>

definition assign_property :: "string \<Rightarrow> Value option \<Rightarrow> (string \<rightharpoonup> Value option) \<Rightarrow> (string \<rightharpoonup> Value option)" where
  "assign_property p v m = (if p = ''__proto__'' then m else m(p \<mapsto> v))"

fun bind_params :: "string list \<Rightarrow> Value option list \<Rightarrow> (string \<rightharpoonup> Value option) \<Rightarrow> (string \<rightharpoonup> Value option)" where
  "bind_params [] args m = m"
| "bind_params (p # ps) [] m = bind_params ps [] (assign_property p None m)"
| "bind_params (p # ps) (a # as) m = bind_params ps as (assign_property p a m)"

definition createEnvironment :: "Context \<Rightarrow> PyClosure \<Rightarrow> Value option list \<Rightarrow> Environment \<times> Context" where
  "createEnvironment ctx c args =
     (let (i, ctx') = uniqueId ctx in
      (\<lparr>name = (case node c of FunctionDefNode nm ps body \<Rightarrow> nm | LambdaNode ps body \<Rightarrow> ''lambda''),
        tail = environment c,
        head = bind_params (case node c of FunctionDefNode nm ps body \<Rightarrow> ps | LambdaNode ps body \<Rightarrow> ps)
                 args Map.empty,
        env_id = i,
        closure = Some c\<rparr>, ctx'))"

text \<open>
  \<open>pyDefineVariable\<close> in the current environment, by \<open>Object.defineProperty\<close>, which
  makes an own property for every name; without an environment, reading \<open>env.head\<close>
  throws.
\<close>

definition pyDefineVariable :: "Context \<Rightarrow> string \<Rightarrow> Value option \<Rightarrow> (exn \<times> Context) + Context" where
  "pyDefineVariable ctx nm v =
     (case currentEnvironment ctx of
        None \<Rightarrow> throw ctx (JsTypeError ''Cannot read properties of undefined (reading head)'')
      | Some a \<Rightarrow>
          Inr (ctx\<lparr>envStore := (envStore ctx)(a := (envStore ctx a)\<lparr>head := (head (envStore ctx a))(nm \<mapsto> v)\<rparr>)\<rparr>))"

text \<open>
  The loop of \<open>pyGetVariable\<close> over the \<open>tail\<close> pointers. On a cyclic chain that never
  binds the name it does not return, which is \<open>None\<close> here.
\<close>

datatype lookup = Bound "Value option" | Unbound

partial_function (option) lookupChain :: "(nat \<Rightarrow> Environment) \<Rightarrow> nat option \<Rightarrow> string \<Rightarrow> lookup option" where
  "lookupChain store currentEnv nm =
     (case currentEnv of
        None \<Rightarrow> Some Unbound
      | Some a \<Rightarrow>
          (case head (store a) nm of
             Some slot \<Rightarrow> Some (Bound slot)
           | None \<Rightarrow> lookupChain store (tail (store a)) nm))"

text \<open>
  \<open>pyGetVariable\<close>. Its first test, for a name among the local variables of the frame's
  closure, is \<open>env.head.hasOwnProperty(name)\<close>: the method is looked up on the head
  itself, so on a frame that binds the name \<open>hasOwnProperty\<close> it is the value bound
  there, which is no function, and the call throws a \<open>TypeError\<close>. The loop tests with
  \<open>Object.prototype.hasOwnProperty.call\<close>.
\<close>

definition pyGetVariable :: "Context \<Rightarrow> string \<Rightarrow> ((exn \<times> Context) + Value option) option" where
  "pyGetVariable ctx nm =
     (case currentEnvironment ctx of
        None \<Rightarrow> Some (throw ctx (JsTypeError ''Cannot read properties of undefined (reading closure)''))
      | Some a \<Rightarrow>
          (let env = envStore ctx a in
           if (case closure env of None \<Rightarrow> False | Some c \<Rightarrow> nm \<in> localVariables c)
              \<and> head env ''hasOwnProperty'' \<noteq> None
           then Some (throw ctx (JsTypeError ''env.head.hasOwnProperty is not a function''))
           else if (case closure env of None \<Rightarrow> False | Some c \<Rightarrow> nm \<in> localVariables c)
              \<and> head env nm = None
           then Some (throw ctx (UnboundLocalError nm))
           else
             (case lookupChain (envStore ctx) (Some a) nm of
                None \<Rightarrow> None
              | Some (Bound slot) \<Rightarrow> Some (Inr slot)
              | Some Unbound \<Rightarrow>
                  (case builtIns nm of
                     Some f \<Rightarrow> Some (Inr (Some (VBuiltin f)))
                   | None \<Rightarrow> Some (throw ctx (NameError nm))))))"

text \<open>
  \<open>scanForAssignments\<close>. The visitor descends into the arrays a node holds and into
  children that own a \<open>type\<close> property; tokens do, nodes do not. So statement lists are
  searched and a single child node is not, and the search stops at \<open>FunctionDef\<close> and
  \<open>Lambda\<close>.
\<close>

fun scan_expr :: "expr \<Rightarrow> string list"
  and scan_stmt :: "stmt \<Rightarrow> string list" where
  "scan_expr (Call callee args) = concat (map scan_expr args)"
| "scan_expr (MultiLambda ps body) = concat (map scan_stmt body)"
| "scan_expr e = []"
| "scan_stmt (Assign nm e) = [nm]"
| "scan_stmt (FunctionDef nm ps body) = []"
| "scan_stmt (IfStmt c body els) =
     concat (map scan_stmt body) @ (case els of ElseBody ss \<Rightarrow> concat (map scan_stmt ss) | _ \<Rightarrow> [])"
| "scan_stmt (While c body) = concat (map scan_stmt body)"
| "scan_stmt (For t it body) = concat (map scan_stmt body)"
| "scan_stmt (FileInput ss) = concat (map scan_stmt ss)"
| "scan_stmt s = []"

definition scanForAssignments_body :: "stmt list \<Rightarrow> string set" where
  "scanForAssignments_body body = set (concat (map scan_stmt body))"

definition scanForAssignments_expr :: "expr \<Rightarrow> string set" where
  "scanForAssignments_expr e = set (scan_expr e)"


section \<open>The CSE machine\<close>

text \<open>\<open>Stack.pop\<close> (on an empty stack the host returns \<open>undefined\<close>) and \<open>Stack.push\<close>.\<close>

definition pop :: "'a option list \<Rightarrow> 'a option \<times> 'a option list" where
  "pop s = (case s of [] \<Rightarrow> (None, []) | x # xs \<Rightarrow> (x, xs))"

definition stash_push :: "Value option \<Rightarrow> Context \<Rightarrow> Context" where
  "stash_push v ctx = ctx\<lparr>stash := v # stash ctx\<rparr>"

text \<open>Pushing several items on the Control; the list gives them with the last pushed first.\<close>

definition control_push :: "ControlItem list \<Rightarrow> Context \<Rightarrow> Context" where
  "control_push items ctx = ctx\<lparr>control := items @ control ctx\<rparr>"

text \<open>The loop of \<open>Application\<close> that pops the arguments, restoring their order.\<close>

fun pop_args :: "nat \<Rightarrow> Value option list \<Rightarrow> Value option list \<Rightarrow> Value option list \<times> Value option list" where
  "pop_args 0 st args = (args, st)"
| "pop_args (Suc n) st args = (let (x, st') = pop st in pop_args n st' (x # args))"

definition push_target :: "branch_target \<Rightarrow> Context \<Rightarrow> Context" where
  "push_target t ctx =
     (case t of
        StatementSequence body \<Rightarrow> control_push (map StmtItem body) ctx
      | TargetExpr e \<Rightarrow> control_push [ExprItem e] ctx
      | TargetStmt s \<Rightarrow> control_push [StmtItem s] ctx)"

definition unknownNode :: "Context \<Rightarrow> string \<Rightarrow> (exn \<times> Context) + Context" where
  "unknownNode ctx nodeType = throw ctx (JsError (''Unknown Python AST node type: '' @ nodeType))"

text \<open>The handlers of \<open>pyCmdEvaluators\<close> for expression nodes.\<close>

fun cmd_expr :: "host \<Rightarrow> expr \<Rightarrow> Context \<Rightarrow> ((exn \<times> Context) + Context) option" where
  "cmd_expr h NoneExpr ctx = Some (Inr (stash_push (Some VUndefined) ctx))"
| "cmd_expr h (BigIntLiteral s) ctx =
     Some (case bigint_of_string s of
             Inl e \<Rightarrow> throw ctx e
           | Inr i \<Rightarrow> Inr (stash_push (Some (VBigInt i)) ctx))"
| "cmd_expr h (ComplexExpr c) ctx = Some (Inr (stash_push (Some (VComplex c)) ctx))"
| "cmd_expr h (Binary l operator r) ctx =
     Some (Inr (control_push [ExprItem l, ExprItem r, InstrItem (BinOpInstr operator)] ctx))"
| "cmd_expr h (Compare l operator r) ctx =
     Some (Inr (control_push [ExprItem l, ExprItem r, InstrItem (BinOpInstr operator)] ctx))"
| "cmd_expr h (BoolOp l operator r) ctx =
     Some (Inr (control_push [ExprItem l, ExprItem r, InstrItem (BoolOpInstr operator)] ctx))"
| "cmd_expr h (Grouping e) ctx = Some (Inr (control_push [ExprItem e] ctx))"
| "cmd_expr h (Literal lit) ctx =
     Some (Inr (stash_push
       (Some (case lit of
                LitNumber n \<Rightarrow> VNumber n
              | LitBoolean b \<Rightarrow> VBool b
              | LitString s \<Rightarrow> VString s
              | LitOther \<Rightarrow> VUndefined)) ctx))"
| "cmd_expr h (Unary operator r) ctx =
     Some (Inr (control_push [ExprItem r, InstrItem (UnOpInstr operator)] ctx))"
| "cmd_expr h (Ternary p c a) ctx =
     Some (Inr (control_push
       [ExprItem p, InstrItem (BranchInstr (TargetExpr c) (Some (TargetExpr a)))] ctx))"
| "cmd_expr h (Lambda ps body) ctx =
     (let (i, ctx') = uniqueId ctx in
      Some (Inr (stash_push
        (Some (VClosure \<lparr>closure_id = i, node = LambdaNode ps body,
                 environment = currentEnvironment ctx,
                 localVariables = scanForAssignments_expr body\<rparr>)) ctx')))"
| "cmd_expr h (MultiLambda ps body) ctx = Some (unknownNode ctx ''MultiLambda'')"
| "cmd_expr h (Variable nm) ctx =
     (case pyGetVariable ctx nm of
        None \<Rightarrow> None
      | Some (Inl e) \<Rightarrow> Some (Inl e)
      | Some (Inr v) \<Rightarrow> Some (Inr (stash_push v ctx)))"
| "cmd_expr h (Call callee args) ctx =
     Some (Inr (control_push
       (ExprItem callee # map ExprItem args @ [InstrItem (AppInstr (length args))]) ctx))"

text \<open>The handlers for statement nodes. \<open>Return\<close> pops the Control down to the next \<open>Reset\<close>.\<close>

fun cmd_stmt :: "host \<Rightarrow> stmt \<Rightarrow> Context \<Rightarrow> (exn \<times> Context) + Context" where
  "cmd_stmt h (FileInput statements) ctx = Inr (control_push (map StmtItem statements) ctx)"
| "cmd_stmt h (SimpleExpr e) ctx = Inr (control_push [ExprItem e] ctx)"
| "cmd_stmt h (Assign nm e) ctx =
     Inr (control_push [ExprItem e, InstrItem (AssmtInstr nm False True)] ctx)"
| "cmd_stmt h (FunctionDef nm ps body) ctx =
     (let (i, ctx') = uniqueId ctx in
      pyDefineVariable ctx' nm
        (Some (VClosure \<lparr>closure_id = i, node = FunctionDefNode nm ps body,
                 environment = currentEnvironment ctx,
                 localVariables = scanForAssignments_body body\<rparr>)))"
| "cmd_stmt h (Return v) ctx =
     (let ctx' = ctx\<lparr>control := dropWhile (\<lambda>c. c \<noteq> InstrItem ResetInstr) (control ctx)\<rparr> in
      case v of
        Some e \<Rightarrow> Inr (control_push [ExprItem e] ctx')
      | None \<Rightarrow> Inr (stash_push (Some VUndefined) ctx'))"
| "cmd_stmt h (IfStmt c body els) ctx =
     Inr (control_push
       [ExprItem c,
        InstrItem (BranchInstr (StatementSequence body)
          (case els of
             NoElse \<Rightarrow> None
           | ElseBody ss \<Rightarrow> Some (StatementSequence ss)
           | ElseNode s \<Rightarrow> Some (TargetStmt s)))] ctx)"
| "cmd_stmt h (FromImport m names) ctx = Inr ctx"
| "cmd_stmt h Indent ctx = unknownNode ctx ''Indent''"
| "cmd_stmt h Dedent ctx = unknownNode ctx ''Dedent''"
| "cmd_stmt h Pass ctx = unknownNode ctx ''Pass''"
| "cmd_stmt h (AnnAssign nm e ann) ctx = unknownNode ctx ''AnnAssign''"
| "cmd_stmt h Break ctx = unknownNode ctx ''Break''"
| "cmd_stmt h Continue ctx = unknownNode ctx ''Continue''"
| "cmd_stmt h (Global nm) ctx = unknownNode ctx ''Global''"
| "cmd_stmt h (NonLocal nm) ctx = unknownNode ctx ''NonLocal''"
| "cmd_stmt h (Assert e) ctx = unknownNode ctx ''Assert''"
| "cmd_stmt h (While c body) ctx = unknownNode ctx ''While''"
| "cmd_stmt h (For t it body) ctx = unknownNode ctx ''For''"

text \<open>\<open>Application\<close>, once the arguments and the callable are popped.\<close>

definition applyCallable ::
  "host \<Rightarrow> Value option \<Rightarrow> Value option list \<Rightarrow> Context \<Rightarrow> (exn \<times> Context) + Context" where
  "applyCallable h callable args ctx =
     (case callable of
        Some (VClosure c) \<Rightarrow>
          (let ctx1 = control_push [InstrItem ResetInstr] ctx;
               ctx2 = (case node c of
                         FunctionDefNode nm ps body \<Rightarrow> control_push [InstrItem EndOfFunctionBodyInstr] ctx1
                       | LambdaNode ps body \<Rightarrow> ctx1);
               (newEnv, ctx3) = createEnvironment ctx2 c args;
               ctx4 = pushEnvironment ctx3 newEnv in
           case node c of
             FunctionDefNode nm ps body \<Rightarrow> Inr (control_push (map StmtItem body) ctx4)
           | LambdaNode ps body \<Rightarrow> Inr (control_push [ExprItem body] ctx4))
      | Some (VJsClosure i f) \<Rightarrow>
          (case JsClosure_call h f args of
             Inl e \<Rightarrow> throw ctx e
           | Inr result \<Rightarrow>
               (case marshalToPy (as_host result) of
                  Inl e \<Rightarrow> throw ctx e
                | Inr v \<Rightarrow> Inr (stash_push (Some v) ctx)))
      | Some (VBuiltin BuiltinPrint) \<Rightarrow>
          (let (result, ctx') = BuiltInFunctions_print h ctx args in
           Inr (stash_push (Some result) ctx'))
      | Some (VBuiltin BuiltinInt) \<Rightarrow>
          (case BuiltInFunctions_int ctx args of
             Inl e \<Rightarrow> Inl e
           | Inr result \<Rightarrow> Inr (stash_push (Some result) ctx))
      | _ \<Rightarrow> throw ctx (JsTypeError ''callable is not a function''))"

text \<open>The handlers for instructions.\<close>

fun cmd_instr :: "host \<Rightarrow> Instr \<Rightarrow> Context \<Rightarrow> (exn \<times> Context) + Context" where
  "cmd_instr h (UnOpInstr symbol) ctx =
     (let (argument, st) = pop (stash ctx); ctx' = ctx\<lparr>stash := st\<rparr> in
      case argument of
        None \<Rightarrow> Inr ctx'
      | Some v \<Rightarrow>
          (case evaluateUnaryExpression ctx' symbol v of
             Inl e \<Rightarrow> Inl e
           | Inr result \<Rightarrow> Inr (stash_push (Some result) ctx')))"
| "cmd_instr h (BinOpInstr symbol) ctx =
     (let (right, st1) = pop (stash ctx); (left, st2) = pop st1; ctx' = ctx\<lparr>stash := st2\<rparr> in
      case (left, right) of
        (Some l, Some r) \<Rightarrow>
          (case evaluateBinaryExpression h ctx' symbol l r of
             Inl e \<Rightarrow> Inl e
           | Inr result \<Rightarrow> Inr (stash_push (Some result) ctx'))
      | _ \<Rightarrow> Inr ctx')"
| "cmd_instr h (BoolOpInstr symbol) ctx =
     (let (right, st1) = pop (stash ctx); (left, st2) = pop st1; ctx' = ctx\<lparr>stash := st2\<rparr> in
      case (left, right) of
        (Some l, Some r) \<Rightarrow>
          (case evaluateBoolExpression ctx' symbol l r of
             Inl e \<Rightarrow> Inl e
           | Inr result \<Rightarrow> Inr (stash_push (Some result) ctx'))
      | _ \<Rightarrow> Inr ctx')"
| "cmd_instr h (AssmtInstr symbol constant declaration) ctx =
     (let (v, st) = pop (stash ctx); ctx' = ctx\<lparr>stash := st\<rparr> in
      case v of
        None \<Rightarrow> Inr ctx'
      | Some x \<Rightarrow> pyDefineVariable ctx' symbol (Some x))"
| "cmd_instr h (AppInstr numOfArgs) ctx =
     (let (args, st1) = pop_args numOfArgs (stash ctx) [];
          (callable, st2) = pop st1 in
      applyCallable h callable args (ctx\<lparr>stash := st2\<rparr>))"
| "cmd_instr h ResetInstr ctx = Inr (popEnvironment ctx)"
| "cmd_instr h EndOfFunctionBodyInstr ctx = Inr (stash_push (Some VUndefined) ctx)"
| "cmd_instr h (BranchInstr consequent alternate) ctx =
     (let (condition, st) = pop (stash ctx); ctx' = ctx\<lparr>stash := st\<rparr> in
      case condition of
        None \<Rightarrow> throw ctx' (JsTypeError ''Cannot read properties of undefined (reading type)'')
      | Some v \<Rightarrow>
          if \<not> isFalsy v then Inr (push_target consequent ctx')
          else (case alternate of None \<Rightarrow> Inr ctx' | Some t \<Rightarrow> Inr (push_target t ctx')))"
| "cmd_instr h PopInstr ctx = Inr (ctx\<lparr>stash := snd (pop (stash ctx))\<rparr>)"
| "cmd_instr h (OtherInstr t) ctx = throw ctx (JsError (''Unknown instruction type: '' @ t))"

text \<open>One dispatch of the main loop on a command already popped from the Control.\<close>

definition pyCmdEvaluators :: "host \<Rightarrow> ControlItem \<Rightarrow> Context \<Rightarrow> ((exn \<times> Context) + Context) option" where
  "pyCmdEvaluators h command ctx =
     (case command of
        ExprItem e \<Rightarrow> cmd_expr h e ctx
      | StmtItem s \<Rightarrow> Some (cmd_stmt h s ctx)
      | InstrItem i \<Rightarrow> Some (cmd_instr h i ctx))"

text \<open>
  \<open>pyGenerateCSEMachineStateStream\<close>, drained as \<open>pyRunCSEMachine\<close> drains it: the loop
  runs while the Control is not empty and counts its steps. The result is the final
  context with the number of steps, or the exception with the context at the throw;
  \<open>None\<close> is a run that does not end. \<open>envSteps\<close> and \<open>stepLimit\<close> are parameters here
  as they are in the source.
\<close>

partial_function (option) pyGenerateCSEMachineStateStream ::
  "host \<Rightarrow> int \<Rightarrow> int \<Rightarrow> bool \<Rightarrow> Context \<Rightarrow> nat \<Rightarrow> ((exn \<times> Context) + (Context \<times> nat)) option" where
  "pyGenerateCSEMachineStateStream h envSteps stepLimit isPrelude ctx steps =
     (case control ctx of
        [] \<Rightarrow> Some (Inr (ctx, steps))
      | command # rest \<Rightarrow>
          (case pyCmdEvaluators h command (ctx\<lparr>control := rest\<rparr>) of
             None \<Rightarrow> None
           | Some (Inl e) \<Rightarrow> Some (Inl e)
           | Some (Inr ctx') \<Rightarrow>
               pyGenerateCSEMachineStateStream h envSteps stepLimit isPrelude
                 (if \<not> isPrelude then ctx'\<lparr>envStepsTotal := steps + 1\<rparr> else ctx')
                 (steps + 1)))"

text \<open>The top of the Stash, or \<open>Undefined\<close> when it is empty or holds \<open>undefined\<close>.\<close>

definition stash_result :: "Context \<Rightarrow> Value" where
  "stash_result ctx =
     (case stash ctx of [] \<Rightarrow> VUndefined | None # rest \<Rightarrow> VUndefined | Some v # rest \<Rightarrow> v)"

definition pyRunCSEMachine ::
  "host \<Rightarrow> Context \<Rightarrow> int \<Rightarrow> int \<Rightarrow> bool \<Rightarrow> ((exn \<times> Context) + (Value \<times> Context \<times> nat)) option" where
  "pyRunCSEMachine h ctx envSteps stepLimit isPrelude =
     (case pyGenerateCSEMachineStateStream h envSteps stepLimit isPrelude ctx 0 of
        None \<Rightarrow> None
      | Some (Inl e) \<Rightarrow> Some (Inl e)
      | Some (Inr (ctx', steps)) \<Rightarrow> Some (Inr (stash_result ctx', ctx', steps)))"

record IOptions =
  isPrelude :: bool
  envSteps :: int
  stepLimit :: int

definition defaultOptions :: IOptions where
  "defaultOptions = \<lparr>isPrelude = False, envSteps = 100000, stepLimit = 100000\<rparr>"

text \<open>\<open>PyEvaluate\<close>: the value it returns and the context it leaves.\<close>

definition PyEvaluate :: "host \<Rightarrow> stmt \<Rightarrow> Context \<Rightarrow> IOptions \<Rightarrow> (Value \<times> Context) option" where
  "PyEvaluate h program ctx options =
     (case pyRunCSEMachine h (ctx\<lparr>isRunning := True, control := [StmtItem program]\<rparr>)
             (envSteps options) (stepLimit options) (isPrelude options) of
        None \<Rightarrow> None
      | Some (Inl (e, ctx')) \<Rightarrow> Some (VError (exn_message h e), ctx'\<lparr>isRunning := False\<rparr>)
      | Some (Inr (result, ctx', steps)) \<Rightarrow>
          Some (if py_output ctx' \<noteq> [] then VString (py_output ctx') else result,
                ctx'\<lparr>isRunning := False\<rparr>))"

record Finished =
  fin_value :: Value
  representation :: string

definition PyCSEResultPromise :: "host \<Rightarrow> Value \<Rightarrow> Finished" where
  "PyCSEResultPromise h v =
     (case v of
        VError m \<Rightarrow> \<lparr>fin_value = v, representation = m\<rparr>
      | _ \<Rightarrow> \<lparr>fin_value = v, representation = toPythonString h (Some v)\<rparr>)"

definition PyRunCSEMachine :: "host \<Rightarrow> stmt \<Rightarrow> Context \<Rightarrow> IOptions \<Rightarrow> (Finished \<times> Context) option" where
  "PyRunCSEMachine h program ctx options =
     (case PyEvaluate h program ctx options of
        None \<Rightarrow> None
      | Some (v, ctx') \<Rightarrow> Some (PyCSEResultPromise h v, ctx'))"

text \<open>
  \<open>PyEvaluator.evaluateChunk\<close>: what is sent to the conductor, and the context kept for
  the next chunk. The front end of \<open>PyRunInContext\<close> (tokenizer, parser, resolver and the
  preloading of modules) is the parameter \<open>frontend\<close>: it gives the program and the
  context after preloading, or the error it throws.
\<close>

definition evaluateChunk ::
  "host \<Rightarrow> (string \<Rightarrow> Context \<Rightarrow> exn + stmt \<times> Context) \<Rightarrow> IOptions \<Rightarrow> Context \<Rightarrow> string
     \<Rightarrow> (string \<times> Context) option" where
  "evaluateChunk h frontend options ctx chunk =
     (case frontend chunk ctx of
        Inl e \<Rightarrow> Some (''Error: '' @ exn_message h e, ctx)
      | Inr (program, ctx1) \<Rightarrow>
          (case PyRunCSEMachine h program ctx1 options of
             None \<Rightarrow> None
           | Some (result, ctx2) \<Rightarrow> Some (representation result, ctx2)))"

text \<open>\<open>new PyContext()\<close>: empty Control and Stash, and the global environment at address 0.\<close>

definition globalEnvironment :: Environment where
  "globalEnvironment = \<lparr>name = ''global'', tail = None, head = Map.empty, env_id = ''-1'', closure = None\<rparr>"

definition new_PyContext :: Context where
  "new_PyContext =
     \<lparr>control = [], stash = [], environments = [0], envStore = (\<lambda>a. globalEnvironment),
      envCount = 1, objectCount = 0, errors = [], py_output = [], isRunning = False,
      envStepsTotal = 0\<rparr>"


section \<open>The tokenizer\<close>

text \<open>
  A source is a list of code units. The character classes are those of the regular
  expressions of the source (\<open>/^[A-Za-z]$/i\<close>, \<open>/^[0-9]/\<close>, \<open>/\s/\<close>,
  \<open>/[\p{P}\p{S}]/u\<close>, \<open>/^\p{Nd}$/u\<close>) on the code units U+0000 to U+00FF.
\<close>

definition NUL :: char where "NUL = CHR 0x00"
definition LF :: char where "LF = CHR 0x0A"
definition CR :: char where "CR = CHR 0x0D"
definition dquote :: char where "dquote = CHR 0x22"
definition squote :: char where "squote = CHR 0x27"
definition backslash :: char where "backslash = CHR 0x5C"

definition code_unit :: "char \<Rightarrow> nat" where
  "code_unit c = of_char c"

definition isAlpha :: "char \<Rightarrow> bool" where
  "isAlpha c = (65 \<le> code_unit c \<and> code_unit c \<le> 90 \<or> 97 \<le> code_unit c \<and> code_unit c \<le> 122)"

definition isDigit :: "char \<Rightarrow> bool" where
  "isDigit c = (48 \<le> code_unit c \<and> code_unit c \<le> 57)"

definition isHexa :: "char \<Rightarrow> bool" where
  "isHexa c = (48 \<le> code_unit c \<and> code_unit c \<le> 57 \<or> 65 \<le> code_unit c \<and> code_unit c \<le> 70
               \<or> 97 \<le> code_unit c \<and> code_unit c \<le> 102)"

definition isOcta :: "char \<Rightarrow> bool" where
  "isOcta c = (48 \<le> code_unit c \<and> code_unit c \<le> 55)"

definition isBinary :: "char \<Rightarrow> bool" where
  "isBinary c = (48 \<le> code_unit c \<and> code_unit c \<le> 49)"

text \<open>Punctuation and symbols: the ASCII ones, and those of U+00A1 to U+00FF.\<close>

definition isDelimiter :: "char \<Rightarrow> bool" where
  "isDelimiter c =
     (33 \<le> code_unit c \<and> code_unit c \<le> 47 \<or> 58 \<le> code_unit c \<and> code_unit c \<le> 64
      \<or> 91 \<le> code_unit c \<and> code_unit c \<le> 96 \<or> 123 \<le> code_unit c \<and> code_unit c \<le> 126
      \<or> 161 \<le> code_unit c \<and> code_unit c \<le> 169
      \<or> code_unit c \<in> set [171, 172, 174, 175, 176, 177, 180, 182, 183, 184, 187, 191, 215, 247])"

definition isSpace :: "char \<Rightarrow> bool" where
  "isSpace c = (code_unit c \<in> set [9, 10, 11, 12, 13, 32, 160])"

definition isLegalUnicode :: "char \<Rightarrow> bool" where
  "isLegalUnicode c = (if isDelimiter c then False else \<not> isDigit c)"

definition isIdentifier :: "char \<Rightarrow> bool" where
  "isIdentifier c =
     (if isSpace c then False
      else c = CHR ''_'' \<or> isAlpha c \<or> isDigit c \<or> isLegalUnicode c)"

definition specialIdentifiers :: "string \<rightharpoonup> TokenType" where
  "specialIdentifiers = map_of
     [(''and'', AND), (''or'', OR), (''while'', WHILE), (''for'', FOR), (''None'', NONE),
      (''is'', IS), (''not'', NOT), (''pass'', PASS), (''def'', DEF), (''lambda'', LAMBDA),
      (''from'', FROM), (''True'', TRUE), (''False'', FALSE), (''break'', BREAK),
      (''continue'', CONTINUE), (''return'', RETURN), (''assert'', ASSERT),
      (''import'', IMPORT), (''global'', GLOBAL), (''nonlocal'', NONLOCAL), (''if'', IF),
      (''elif'', ELIF), (''else'', ELSE), (''in'', IN)]"

definition forbiddenIdentifiers :: "string list" where
  "forbiddenIdentifiers =
     [''async'', ''await'', ''yield'', ''with'', ''del'', ''try'', ''except'', ''finally'',
      ''raise'']"

record Token =
  tk_type :: TokenType
  lexeme :: string
  tk_line :: nat
  tk_col :: nat
  indexInSource :: nat

text \<open>
  The state of a \<open>Tokenizer\<close>. \<open>indentStack\<close> is the array of the source, its top the last
  element.
\<close>

record Tokenizer =
  source :: string
  tokens :: "Token list"
  start :: nat
  current :: nat
  line :: nat
  col :: nat
  indentStack :: "nat list"
  parenthesesLevel :: nat
  lexemeBuffer :: string

datatype TokenizerErrors =
    UnknownTokenError char
  | UnterminatedStringError
  | NonFourIndentError
  | InvalidNumberError
  | InconsistentIndentError
  | ForbiddenIdentifierError
  | ForbiddenOperatorError
  | NonMatchingParenthesesError
  | Thrown exn

definition new_Tokenizer :: "string \<Rightarrow> Tokenizer" where
  "new_Tokenizer src =
     \<lparr>source = src, tokens = [], start = 0, current = 0, line = 0, col = 0,
      indentStack = [0], parenthesesLevel = 0, lexemeBuffer = []\<rparr>"

text \<open>\<open>s.slice(a, b)\<close> for indices that are not negative.\<close>

definition slice :: "string \<Rightarrow> nat \<Rightarrow> nat \<Rightarrow> string" where
  "slice s a b = take (b - a) (drop a s)"

definition isAtEnd :: "Tokenizer \<Rightarrow> bool" where
  "isAtEnd t = (current t \<ge> length (source t))"

definition peek :: "Tokenizer \<Rightarrow> char" where
  "peek t = (if isAtEnd t then NUL else source t ! current t)"

definition advance :: "Tokenizer \<Rightarrow> Tokenizer" where
  "advance t =
     t\<lparr>line := (if peek t = LF then line t + 1 else line t),
       current := current t + 1, col := col t + 1\<rparr>"

text \<open>
  \<open>advanceString(record)\<close>: past the end the character read is \<open>undefined\<close>, which the
  buffer receives as the text \<open>undefined\<close>.
\<close>

definition advanceString :: "bool \<Rightarrow> Tokenizer \<Rightarrow> Tokenizer" where
  "advanceString recorded t =
     (advance t)\<lparr>lexemeBuffer :=
        (if recorded
         then lexemeBuffer t @ (if isAtEnd t then ''undefined'' else [source t ! current t])
         else lexemeBuffer t)\<rparr>"

definition addBuffer :: "char \<Rightarrow> Tokenizer \<Rightarrow> Tokenizer" where
  "addBuffer c t = t\<lparr>lexemeBuffer := lexemeBuffer t @ [c]\<rparr>"

definition subtractBufferForThreeQuoteString :: "Tokenizer \<Rightarrow> Tokenizer" where
  "subtractBufferForThreeQuoteString t =
     (if length (lexemeBuffer t) \<ge> 3
      then t\<lparr>lexemeBuffer := take (length (lexemeBuffer t) - 3) (lexemeBuffer t)\<rparr>
      else t)"

definition addToken :: "TokenType \<Rightarrow> Tokenizer \<Rightarrow> Tokenizer" where
  "addToken ty t =
     (let lx = slice (source t) (start t) (current t)
      in t\<lparr>tokens := tokens t @
           [\<lparr>tk_type = ty, lexeme = lx, tk_line = line t, tk_col = col t,
             indexInSource = current t - length lx\<rparr>]\<rparr>)"

definition addStringToken :: "TokenType \<Rightarrow> Tokenizer \<Rightarrow> Tokenizer" where
  "addStringToken ty t =
     (let lx = slice (source t) (start t + 1) (current t - 1)
      in t\<lparr>tokens := tokens t @
           [\<lparr>tk_type = ty, lexeme = lexemeBuffer t, tk_line = line t, tk_col = col t,
             indexInSource = current t - length lx\<rparr>],
           lexemeBuffer := []\<rparr>)"

definition addMultiLineStringToken :: "TokenType \<Rightarrow> Tokenizer \<Rightarrow> Tokenizer" where
  "addMultiLineStringToken ty t =
     (let lx = slice (source t) (start t + 3) (current t - 3)
      in t\<lparr>tokens := tokens t @
           [\<lparr>tk_type = ty, lexeme = lexemeBuffer t, tk_line = line t, tk_col = col t,
             indexInSource = current t - length lx\<rparr>],
           lexemeBuffer := []\<rparr>)"

text \<open>\<open>overwriteToken\<close> is called with a previous token only.\<close>

definition overwriteToken :: "TokenType \<Rightarrow> Tokenizer \<Rightarrow> Tokenizer" where
  "overwriteToken ty t =
     (let previousToken = last (tokens t);
          lx = slice (source t) (indexInSource previousToken) (current t)
      in t\<lparr>tokens := butlast (tokens t) @
           [\<lparr>tk_type = ty, lexeme = lx, tk_line = tk_line previousToken,
             tk_col = tk_col previousToken, indexInSource = indexInSource previousToken\<rparr>]\<rparr>)"

definition matches :: "char \<Rightarrow> Tokenizer \<Rightarrow> bool \<times> Tokenizer" where
  "matches pattern t =
     (if isAtEnd t then (False, t)
      else if source t ! current t = pattern
           then (True, t\<lparr>col := col t + 1, current := current t + 1\<rparr>)
           else (False, t))"

text \<open>
  A run of the tokenizer returns a state, throws, or does not return (\<open>None\<close>).
\<close>

type_synonym scan = "(TokenizerErrors + Tokenizer) option"

definition returns :: "Tokenizer \<Rightarrow> scan" where
  "returns t = Some (Inr t)"

definition throws :: "TokenizerErrors \<Rightarrow> scan" where
  "throws e = Some (Inl e)"

definition and_then :: "scan \<Rightarrow> (Tokenizer \<Rightarrow> scan) \<Rightarrow> scan" where
  "and_then r f = (case r of None \<Rightarrow> None | Some (Inl e) \<Rightarrow> Some (Inl e) | Some (Inr t) \<Rightarrow> f t)"

text \<open>
  The loops \<open>while (this.isX(this.peek())) this.advance()\<close>. They carry no test of
  \<open>isAtEnd\<close>: past the end \<open>peek\<close> is the character U+0000 and \<open>advance\<close> still moves on.
\<close>

partial_function (option) advanceWhile :: "(char \<Rightarrow> bool) \<Rightarrow> Tokenizer \<Rightarrow> Tokenizer option" where
  "advanceWhile p t = (if p (peek t) then advanceWhile p (advance t) else Some t)"

text \<open>The loops over digits and underscores of \<open>number\<close>.\<close>

partial_function (option) digitsAndUnderscores :: "Tokenizer \<Rightarrow> scan" where
  "digitsAndUnderscores t =
     (if isDigit (peek t) \<or> peek t = CHR ''_''
      then (if peek t = CHR ''_''
            then (let t' = advance t
                  in if \<not> isDigit (peek t')
                     then Some (Inl (Thrown (JsError ''Invalid use of underscore in number'')))
                     else digitsAndUnderscores t')
            else digitsAndUnderscores (advance t))
      else Some (Inr t))"

text \<open>The loops guarded by \<open>isAtEnd\<close>: comments and leading spaces.\<close>

function skipComment :: "Tokenizer \<Rightarrow> Tokenizer" where
  "skipComment t =
     (if (peek t \<noteq> LF \<and> peek t \<noteq> CR) \<and> \<not> isAtEnd t then skipComment (advance t) else t)"
  by pat_completeness auto
termination
  by (relation "measure (\<lambda>t. length (source t) - current t)")
     (auto simp: isAtEnd_def advance_def)

declare skipComment.simps [simp del]

function leadingWhiteSpace :: "nat \<Rightarrow> Tokenizer \<Rightarrow> nat \<times> Tokenizer" where
  "leadingWhiteSpace acc t =
     (if peek t = CHR '' '' \<and> \<not> isAtEnd t then leadingWhiteSpace (acc + 1) (advance t)
      else (acc, t))"
  by pat_completeness auto
termination
  by (relation "measure (\<lambda>(acc, t). length (source t) - current t)")
     (auto simp: isAtEnd_def advance_def)

declare leadingWhiteSpace.simps [simp del]

text \<open>
  The loop over the blank lines that follow a line break; each restarts the count of
  leading spaces.
\<close>

function blankLines :: "nat \<Rightarrow> Tokenizer \<Rightarrow> nat \<times> Tokenizer" where
  "blankLines acc t =
     (if (peek t = LF \<or> peek t = CR) \<and> \<not> isAtEnd t
      then (let t1 = (if peek t = CR
                      then (let t' = advance t in if peek t' = LF then advance t' else t')
                      else advance t);
                t2 = t1\<lparr>line := line t1 + 1, col := 0\<rparr>;
                r = leadingWhiteSpace 0 t2
            in blankLines (fst r) (snd r))
      else (acc, t))"
  by pat_completeness auto
termination
proof (relation "measure (\<lambda>(acc, t). length (source t) - current t)", goal_cases)
  case 1
  show ?case by simp
next
  case (2 acc t t1 t2 r)
  have mono: "source (snd (leadingWhiteSpace a u)) = source u
              \<and> current u \<le> current (snd (leadingWhiteSpace a u))" for a u
  proof (induction a u rule: leadingWhiteSpace.induct)
    case (1 acc t)
    show ?case
    proof (cases "peek t = CHR '' '' \<and> \<not> isAtEnd t")
      case True
      have "leadingWhiteSpace acc t = leadingWhiteSpace (acc + 1) (advance t)"
        using True by (subst leadingWhiteSpace.simps) simp
      with 1 [OF True] show ?thesis
        by (simp add: advance_def)
    next
      case False
      have "leadingWhiteSpace acc t = (acc, t)"
        by (subst leadingWhiteSpace.simps) (simp only: False if_False)
      then show ?thesis by simp
    qed
  qed
  have t1: "source t1 = source t \<and> current t < current t1"
    unfolding 2(2) by (simp add: advance_def Let_def)
  have "source t2 = source t" "current t < current t2"
    unfolding 2(3) using t1 by simp_all
  moreover have "current t < length (source t)"
    using 2(1) by (simp add: isAtEnd_def)
  ultimately show ?case
    unfolding 2(4) using mono [of 0 t2] by (simp add: case_prod_unfold, arith)
qed

declare blankLines.simps [simp del]

text \<open>
  The end of the \<open>'\n'\<close> case: the count of leading spaces against the top of the indent
  stack. On an empty stack the top is \<open>undefined\<close> and both comparisons are false; the two
  \<open>InconsistentIndentError\<close> of the source lie behind \<open>accLeadingWhiteSpace < tos\<close> and are
  not reached.
\<close>

definition pushIndents :: "nat \<Rightarrow> nat \<Rightarrow> Tokenizer \<Rightarrow> Tokenizer" where
  "pushIndents accLeadingWhiteSpace tos t =
     (let t1 = t\<lparr>indentStack := indentStack t @ [accLeadingWhiteSpace]\<rparr>;
          indents = (accLeadingWhiteSpace - tos) div 4
      in (addToken INDENT ^^ indents) t1)"

definition popDedents :: "nat \<Rightarrow> nat \<Rightarrow> Tokenizer \<Rightarrow> Tokenizer" where
  "popDedents accLeadingWhiteSpace prev t =
     (let indents = (prev - accLeadingWhiteSpace) div 4
      in ((\<lambda>u. addToken DEDENT (u\<lparr>indentStack := butlast (indentStack u)\<rparr>)) ^^ indents) t)"

definition indentation :: "nat \<Rightarrow> Tokenizer \<Rightarrow> scan" where
  "indentation accLeadingWhiteSpace t =
     (if accLeadingWhiteSpace mod 4 \<noteq> 0 then throws NonFourIndentError
      else if indentStack t = [] then returns t
      else (let tos = last (indentStack t)
            in if accLeadingWhiteSpace > tos then returns (pushIndents accLeadingWhiteSpace tos t)
               else if accLeadingWhiteSpace < tos then returns (popDedents accLeadingWhiteSpace tos t)
               else returns t))"

definition newline :: "Tokenizer \<Rightarrow> scan" where
  "newline t =
     (if parenthesesLevel t > 0 then returns (t\<lparr>line := line t + 1, col := 0\<rparr>)
      else (let t1 = addToken NEWLINE t;
                t2 = t1\<lparr>line := line t1 + 1, col := 0\<rparr>;
                r = leadingWhiteSpace 0 t2;
                t3 = (if peek (snd r) = CHR ''#'' then skipComment (snd r) else snd r);
                r' = blankLines (fst r) t3
            in indentation (fst r') (snd r')))"

text \<open>The escape sequences of string literals (\<open>'\a'\<close> is the letter \<open>a\<close> for the host).\<close>

definition escape :: "Tokenizer \<Rightarrow> TokenizerErrors + Tokenizer" where
  "escape t =
     (let c = peek t
      in if c = LF then Inr t
         else if c = backslash then Inr (addBuffer backslash t)
         else if c = squote then Inr (addBuffer squote t)
         else if c = dquote then Inr (addBuffer dquote t)
         else if c = CHR ''a'' then Inr (addBuffer CHR ''a'' t)
         else if c = CHR ''b'' then Inr (addBuffer (CHR 0x08) t)
         else if c = CHR ''f'' then Inr (addBuffer (CHR 0x0C) t)
         else if c = CHR ''n'' then Inr (addBuffer LF t)
         else if c = CHR ''r'' then Inr (addBuffer CR t)
         else if c = CHR ''t'' then Inr (addBuffer (CHR 0x09) t)
         else if c = CHR ''v'' then Inr (addBuffer (CHR 0x0B) t)
         else Inl (Thrown (JsError ''SyntaxWarning: invalid escape sequence'')))"

text \<open>The body of a single-line string, up to the closing quote, a line break or the end.\<close>

function singleLineString :: "char \<Rightarrow> Tokenizer \<Rightarrow> TokenizerErrors + Tokenizer" where
  "singleLineString quote t =
     (if peek t \<noteq> quote \<and> peek t \<noteq> LF \<and> \<not> isAtEnd t
      then (if peek t = backslash
            then (case escape (advanceString False t) of
                    Inl e \<Rightarrow> Inl e
                  | Inr t' \<Rightarrow> singleLineString quote (advanceString False t'))
            else singleLineString quote (advanceString True t))
      else Inr t)"
  by pat_completeness auto
termination
  by (relation "measure (\<lambda>(quote, t). length (source t) - current t)")
     (auto simp: isAtEnd_def advance_def advanceString_def escape_def addBuffer_def Let_def
           split: if_splits)

declare singleLineString.simps [simp del]

text \<open>
  The inner loop of a triple-quoted string, up to the next quote or the end; it resets
  \<open>quote_sum\<close>.
\<close>

function multiLineChars :: "char \<Rightarrow> nat \<Rightarrow> Tokenizer \<Rightarrow> TokenizerErrors + nat \<times> Tokenizer" where
  "multiLineChars quote quote_sum t =
     (if peek t \<noteq> quote \<and> \<not> isAtEnd t
      then (if peek t = backslash
            then (case escape (advanceString False t) of
                    Inl e \<Rightarrow> Inl e
                  | Inr t' \<Rightarrow> multiLineChars quote 0 (advanceString False t'))
            else multiLineChars quote 0 (advanceString True t))
      else Inr (quote_sum, t))"
  by pat_completeness auto
termination
  by (relation "measure (\<lambda>(quote, quote_sum, t). length (source t) - current t)")
     (auto simp: isAtEnd_def advance_def advanceString_def escape_def addBuffer_def Let_def
           split: if_splits)

declare multiLineChars.simps [simp del]

text \<open>The loop \<open>while (true)\<close> of a triple-quoted string.\<close>

partial_function (option) multiLineString :: "char \<Rightarrow> nat \<Rightarrow> Tokenizer \<Rightarrow> scan" where
  "multiLineString quote quote_sum t =
     (case multiLineChars quote quote_sum t of
        Inl e \<Rightarrow> Some (Inl e)
      | Inr (quote_sum1, t1) \<Rightarrow>
          if isAtEnd t1 then Some (Inl UnterminatedStringError)
          else if peek t1 = quote
               then (if quote_sum1 + 1 = 3
                     then Some (Inr (subtractBufferForThreeQuoteString (advanceString True t1)))
                     else multiLineString quote (quote_sum1 + 1) (advanceString True t1))
               else (if quote_sum1 = 3
                     then Some (Inr (subtractBufferForThreeQuoteString t1))
                     else multiLineString quote quote_sum1 t1))"

definition string_literal :: "char \<Rightarrow> Tokenizer \<Rightarrow> scan" where
  "string_literal quote t =
     (if peek t = quote
      then (let t1 = advance t
            in if peek t1 \<noteq> quote then returns (addStringToken STRING t1)
               else and_then (multiLineString quote 0 (advance t1))
                      (\<lambda>t2. returns (addMultiLineStringToken STRING t2)))
      else (case singleLineString quote t of
              Inl e \<Rightarrow> throws e
            | Inr t1 \<Rightarrow>
                if peek t1 = LF \<or> isAtEnd t1 then throws UnterminatedStringError
                else returns (addStringToken STRING (advance t1))))"

text \<open>Numbers.\<close>

definition exponent :: "Tokenizer \<Rightarrow> (Tokenizer \<Rightarrow> scan) \<Rightarrow> scan" where
  "exponent t digits =
     (if peek t = CHR ''e''
      then (let t1 = advance t;
                t2 = (if peek t1 = CHR ''-'' then advance t1 else t1);
                t3 = (if peek t2 = CHR ''+'' then advance t2 else t2)
            in if \<not> isDigit (peek t3) then throws InvalidNumberError else digits t3)
      else returns t)"

definition imaginary :: "Tokenizer \<Rightarrow> scan" where
  "imaginary t =
     (if peek t = CHR ''j'' \<or> peek t = CHR ''J'' then returns (addToken COMPLEX (advance t))
      else returns (addToken NUMBER t))"

definition prefixed :: "(char \<Rightarrow> bool) \<Rightarrow> Tokenizer \<Rightarrow> scan" where
  "prefixed isX t =
     (let t1 = advance t
      in if \<not> isX (peek t1) then throws InvalidNumberError
         else (case advanceWhile isX t1 of
                 None \<Rightarrow> None
               | Some t2 \<Rightarrow> returns (addToken BIGINT t2)))"

definition digits :: "Tokenizer \<Rightarrow> scan" where
  "digits t = (case advanceWhile isDigit t of None \<Rightarrow> None | Some t1 \<Rightarrow> returns t1)"

definition baseNumber :: "Tokenizer \<Rightarrow> scan" where
  "baseNumber t =
     (if peek t = CHR ''x'' then prefixed isHexa t
      else if peek t = CHR ''o'' then prefixed isOcta t
      else if peek t = CHR ''b'' then prefixed isBinary t
      else and_then (digits t) (\<lambda>t1.
        if peek t1 \<noteq> CHR ''.'' \<and> peek t1 \<noteq> CHR ''e''
        then (if peek t1 = CHR ''j'' \<or> peek t1 = CHR ''J''
              then returns (addToken COMPLEX (advance t1))
              else returns (addToken BIGINT t1))
        else and_then
               (if peek t1 = CHR ''.''
                then (let t2 = advance t1
                      in if peek t2 = CHR ''_'' then throws (Thrown (JsError ''_ after .''))
                         else digits t2)
                else returns t1) (\<lambda>t3.
             and_then (exponent (if peek t3 = CHR ''_'' then advance t3 else t3) digits)
               imaginary)))"

definition number :: "char \<Rightarrow> Tokenizer \<Rightarrow> scan" where
  "number c t =
     and_then (if c \<noteq> CHR ''.'' then digitsAndUnderscores t else returns t) (\<lambda>t1.
       if peek t1 \<noteq> CHR ''.'' \<and> peek t1 \<noteq> CHR ''e'' \<and> c \<noteq> CHR ''.''
       then (if peek t1 = CHR ''j'' \<or> peek t1 = CHR ''J''
             then returns (addToken COMPLEX (advance t1))
             else returns (addToken BIGINT t1))
       else and_then
              (if (peek t1 = CHR ''.'' \<and> c \<noteq> CHR ''.'') \<or> (peek t1 \<noteq> CHR ''.'' \<and> c = CHR ''.'')
               then (let t2 = advance t1
                     in if peek t2 = CHR ''_'' then throws (Thrown (JsError ''_ after .''))
                        else digitsAndUnderscores t2)
               else returns t1) (\<lambda>t3.
            and_then (exponent t3 digitsAndUnderscores) imaginary))"

text \<open>
  Names and keywords. \<open>not\<close> after \<open>is\<close> and \<open>in\<close> after \<open>not\<close> are merged into the previous
  token; \<open>in\<close> reads the type of the previous token without testing that there is one.
\<close>

definition name_token :: "Tokenizer \<Rightarrow> scan" where
  "name_token t =
     (case advanceWhile isIdentifier t of
        None \<Rightarrow> None
      | Some t1 \<Rightarrow>
          (let identifier = slice (source t1) (start t1) (current t1)
           in if identifier \<in> set forbiddenIdentifiers then throws ForbiddenIdentifierError
              else (case specialIdentifiers identifier of
                      None \<Rightarrow> returns (addToken NAME t1)
                    | Some specialIdent \<Rightarrow>
                        if specialIdent = NOT
                        then (if tokens t1 \<noteq> [] \<and> tk_type (last (tokens t1)) = IS
                              then returns (overwriteToken ISNOT t1)
                              else returns (addToken specialIdent t1))
                        else if specialIdent = IN
                        then (if tokens t1 = []
                              then throws (Thrown (JsTypeError
                                     ''Cannot read properties of undefined''))
                              else if tk_type (last (tokens t1)) = NOT
                              then returns (overwriteToken NOTIN t1)
                              else returns (addToken specialIdent t1))
                        else returns (addToken specialIdent t1))))"

definition one_or_two :: "char \<Rightarrow> TokenType \<Rightarrow> TokenType \<Rightarrow> Tokenizer \<Rightarrow> scan" where
  "one_or_two pattern two one t =
     (let m = matches pattern t in returns (addToken (if fst m then two else one) (snd m)))"

definition not_augmented :: "Tokenizer \<Rightarrow> (Tokenizer \<Rightarrow> scan) \<Rightarrow> scan" where
  "not_augmented t k =
     (let m = matches CHR ''='' t in if fst m then throws ForbiddenOperatorError else k (snd m))"

text \<open>
  \<open>scanToken\<close>, called before the end of the source: it reads the character \<open>c\<close> and
  dispatches on it.
\<close>

definition scanToken :: "Tokenizer \<Rightarrow> scan" where
  "scanToken t0 =
     (let c = source t0 ! current t0; t = advance t0
      in if c = CHR ''#'' then returns (skipComment t)
         else if c = CHR '':'' then one_or_two CHR '':'' DOUBLECOLON COLON t
         else if c = CHR '' '' then returns t
         else if c = CR then (let m = matches LF t in if fst m then newline (snd m) else returns t)
         else if c = LF then newline t
         else if c = dquote \<or> c = squote then string_literal c t
         else if c = CHR ''0'' then baseNumber t
         else if isDigit c \<or> c = CHR ''.'' then number c t
         else if c = CHR ''('' then
           returns ((addToken LPAR t)\<lparr>parenthesesLevel := parenthesesLevel t + 1\<rparr>)
         else if c = CHR '')'' then
           (if parenthesesLevel t = 0 then throws NonMatchingParenthesesError
            else returns ((addToken RPAR t)\<lparr>parenthesesLevel := parenthesesLevel t - 1\<rparr>))
         else if c = CHR '','' then returns (addToken COMMA t)
         else if c = CHR ''-'' then not_augmented t (\<lambda>t. returns (addToken MINUS t))
         else if c = CHR ''+'' then not_augmented t (\<lambda>t. returns (addToken PLUS t))
         else if c = CHR ''*'' then not_augmented t (one_or_two CHR ''*'' DOUBLESTAR STAR)
         else if c = CHR ''/'' then not_augmented t (one_or_two CHR ''/'' DOUBLESLASH SLASH)
         else if c = CHR ''%'' then not_augmented t (\<lambda>t. returns (addToken PERCENT t))
         else if c = CHR ''!'' then one_or_two CHR ''='' NOTEQUAL BANG t
         else if c = CHR ''='' then one_or_two CHR ''='' DOUBLEEQUAL EQUAL t
         else if c = CHR ''<'' then one_or_two CHR ''='' LESSEQUAL LESS t
         else if c = CHR ''>'' then one_or_two CHR ''='' GREATEREQUAL GREATER t
         else if c = CHR ''_'' \<or> isAlpha c \<or> isLegalUnicode c then name_token t
         else if c \<in> set ''@|&~^'' then throws ForbiddenOperatorError
         else throws (UnknownTokenError c))"

text \<open>
  \<open>scanEverything\<close>: the loop over the source, then the loop that unravels the indent
  stack down to an entry \<open>0\<close>, then the end marker. On an empty stack the top is
  \<open>undefined\<close>, which is not \<open>0\<close>, and \<open>pop\<close> leaves the stack empty.
\<close>

partial_function (option) scanTokens :: "Tokenizer \<Rightarrow> scan" where
  "scanTokens t =
     (if \<not> isAtEnd t
      then (case scanToken (t\<lparr>start := current t\<rparr>) of
              None \<Rightarrow> None
            | Some (Inl e) \<Rightarrow> Some (Inl e)
            | Some (Inr t') \<Rightarrow> scanTokens t')
      else Some (Inr t))"

partial_function (option) unravel :: "Tokenizer \<Rightarrow> Tokenizer option" where
  "unravel t =
     (if indentStack t = [] \<or> last (indentStack t) \<noteq> 0
      then unravel (addToken DEDENT (t\<lparr>indentStack := butlast (indentStack t)\<rparr>))
      else Some t)"

definition scanEverything :: "string \<Rightarrow> (TokenizerErrors + Token list) option" where
  "scanEverything src =
     (case scanTokens (new_Tokenizer src) of
        None \<Rightarrow> None
      | Some (Inl e) \<Rightarrow> Some (Inl e)
      | Some (Inr t) \<Rightarrow>
          (case unravel t of
             None \<Rightarrow> None
           | Some t' \<Rightarrow>
               Some (Inr (tokens t' @
                 [\<lparr>tk_type = ENDMARKER, lexeme = [], tk_line = line t', tk_col = col t',
                   indexInSource = current t'\<rparr>]))))"

definition count_type :: "TokenType \<Rightarrow> Token list \<Rightarrow> nat" where
  "count_type ty ts = length (filter (\<lambda>k. tk_type k = ty) ts)"

declare advanceWhile.simps [code]
declare digitsAndUnderscores.simps [code]
declare multiLineString.simps [code]
declare scanTokens.simps [code]
declare unravel.simps [code]


section \<open>A reference host\<close>

text \<open>
  One host, on which the model can be run on concrete inputs. Its arithmetic on finite
  numbers is exact, which is what binary64 gives whenever the exact result is
  representable, as it is for the small integers of the evaluations below; infinities,
  NaN and the sign of zero follow IEEE 754. The functions the host only approximates
  (\<open>sqrt\<close>, \<open>atan2\<close>, \<open>log\<close>, \<open>exp\<close>, \<open>cos\<close>, \<open>sin\<close>, powers with a fractional exponent) and
  the rendering of fractions have no exact counterpart and answer NaN or a placeholder;
  no evaluation below reaches them. Every foreign function returns its first argument.
\<close>

fun sign_bit :: "number \<Rightarrow> bool" where
  "sign_bit (Fin a) = (a < 0)"
| "sign_bit NegZero = True"
| "sign_bit NInf = True"
| "sign_bit x = False"

fun is_inf :: "number \<Rightarrow> bool" where
  "is_inf PInf = True"
| "is_inf NInf = True"
| "is_inf x = False"

fun fin_val :: "number \<Rightarrow> rat" where
  "fin_val (Fin a) = a"
| "fin_val x = 0"

definition signed_zero :: "bool \<Rightarrow> rat \<Rightarrow> number" where
  "signed_zero negative r = (if r = 0 \<and> negative then NegZero else Fin r)"

fun exact_add :: "number \<Rightarrow> number \<Rightarrow> number" where
  "exact_add NaN y = NaN"
| "exact_add x NaN = NaN"
| "exact_add PInf NInf = NaN"
| "exact_add NInf PInf = NaN"
| "exact_add PInf y = PInf"
| "exact_add x PInf = PInf"
| "exact_add NInf y = NInf"
| "exact_add x NInf = NInf"
| "exact_add NegZero NegZero = NegZero"
| "exact_add x y = Fin (fin_val x + fin_val y)"

definition exact_sub :: "number \<Rightarrow> number \<Rightarrow> number" where
  "exact_sub x y = exact_add x (num_neg y)"

definition exact_mul :: "number \<Rightarrow> number \<Rightarrow> number" where
  "exact_mul x y =
     (if x = NaN \<or> y = NaN then NaN
      else if (is_inf x \<and> num_is_zero y) \<or> (num_is_zero x \<and> is_inf y) then NaN
      else if is_inf x \<or> is_inf y then (if sign_bit x \<noteq> sign_bit y then NInf else PInf)
      else signed_zero (sign_bit x \<noteq> sign_bit y) (fin_val x * fin_val y))"

definition exact_div :: "number \<Rightarrow> number \<Rightarrow> number" where
  "exact_div x y =
     (if x = NaN \<or> y = NaN then NaN
      else if (is_inf x \<and> is_inf y) \<or> (num_is_zero x \<and> num_is_zero y) then NaN
      else if is_inf x \<or> num_is_zero y then (if sign_bit x \<noteq> sign_bit y then NInf else PInf)
      else if is_inf y then signed_zero (sign_bit x \<noteq> sign_bit y) 0
      else signed_zero (sign_bit x \<noteq> sign_bit y) (fin_val x / fin_val y))"

definition exact_rem :: "number \<Rightarrow> number \<Rightarrow> number" where
  "exact_rem x y =
     (if x = NaN \<or> y = NaN \<or> is_inf x \<or> num_is_zero y then NaN
      else if is_inf y then x
      else signed_zero (sign_bit x)
             (fin_val x - fin_val y * of_int (rat_trunc (fin_val x / fin_val y))))"

definition exact_pow :: "number \<Rightarrow> number \<Rightarrow> number" where
  "exact_pow x y =
     (if num_is_zero y then Fin 1
      else if x = NaN \<or> y = NaN \<or> is_inf x \<or> is_inf y \<or> \<not> num_isInteger y then NaN
      else if 0 < fin_val y then Fin (fin_val x ^ nat \<lfloor>fin_val y\<rfloor>)
      else if num_is_zero x then PInf
      else Fin (1 / fin_val x ^ nat (- \<lfloor>fin_val y\<rfloor>)))"

definition ref_numberOfString :: "string \<Rightarrow> number" where
  "ref_numberOfString s =
     (if s = [] then Fin 0
      else case parse_nat 10 s of None \<Rightarrow> NaN | Some n \<Rightarrow> Fin (of_nat n))"

definition ref_numberToString :: "number \<Rightarrow> string" where
  "ref_numberToString x =
     (case x of
        NaN \<Rightarrow> ''NaN''
      | PInf \<Rightarrow> ''Infinity''
      | NInf \<Rightarrow> ''-Infinity''
      | NegZero \<Rightarrow> ''0''
      | Fin a \<Rightarrow> if of_int \<lfloor>a\<rfloor> = a then bigint_toString \<lfloor>a\<rfloor> else ''<fraction>'')"

definition ref_message :: "exn \<Rightarrow> string" where
  "ref_message e =
     (case e of
        UnsupportedOperandTypeError t1 t2 operator \<Rightarrow> ''TypeError: unsupported operand type(s) for '' @ operator
      | ZeroDivisionError \<Rightarrow> ''ZeroDivisionError''
      | UnboundLocalError nm \<Rightarrow> ''UnboundLocalError: '' @ nm
      | NameError nm \<Rightarrow> ''NameError: '' @ nm
      | JsError m \<Rightarrow> m
      | JsTypeError m \<Rightarrow> m
      | JsRangeError m \<Rightarrow> m
      | JsSyntaxError m \<Rightarrow> m)"

definition ref_host :: host where
  "ref_host =
     \<lparr>h_add = exact_add, h_sub = exact_sub, h_mul = exact_mul, h_div = exact_div,
      h_rem = exact_rem, h_pow = exact_pow,
      h_sqrt = (\<lambda>x. NaN), h_atan2 = (\<lambda>x y. NaN), h_log = (\<lambda>x. NaN), h_log10 = (\<lambda>x. NaN),
      h_exp = (\<lambda>x. NaN), h_cos = (\<lambda>x. NaN), h_sin = (\<lambda>x. NaN),
      h_numberOfBigInt = (\<lambda>i. Fin (of_int i)),
      h_numberOfString = ref_numberOfString,
      h_numberToString = ref_numberToString,
      h_toExponential = (\<lambda>x p. ''<exponential>''),
      h_toFixed = (\<lambda>x d. ref_numberToString x @ ''.0''),
      h_foreign = (\<lambda>f args. Inr (case args of [] \<Rightarrow> JsUndef | a # rest \<Rightarrow> a)),
      h_message = ref_message\<rparr>"


section \<open>Notions used in the statements\<close>

text \<open>The numeric operands of a binary expression: BigInt, Float and Bool.\<close>

fun is_numeric :: "Value \<Rightarrow> bool" where
  "is_numeric (VBigInt i) = True"
| "is_numeric (VNumber n) = True"
| "is_numeric (VBool b) = True"
| "is_numeric v = False"

text \<open>
  Name resolution along the scope chain, stated apart from the loop that computes it:
  \<open>resolves store e nm slot\<close> when the nearest frame from \<open>e\<close> upwards that binds \<open>nm\<close>
  binds it to \<open>slot\<close>, and \<open>chain_unbound store e nm\<close> when the chain from \<open>e\<close> ends
  without a frame binding \<open>nm\<close>.
\<close>

inductive resolves :: "(nat \<Rightarrow> Environment) \<Rightarrow> nat option \<Rightarrow> string \<Rightarrow> Value option \<Rightarrow> bool" where
  resolves_here: "head (store a) nm = Some slot \<Longrightarrow> resolves store (Some a) nm slot"
| resolves_up: "head (store a) nm = None \<Longrightarrow> resolves store (tail (store a)) nm slot
     \<Longrightarrow> resolves store (Some a) nm slot"

inductive chain_unbound :: "(nat \<Rightarrow> Environment) \<Rightarrow> nat option \<Rightarrow> string \<Rightarrow> bool" where
  unbound_end: "chain_unbound store None nm"
| unbound_up: "head (store a) nm = None \<Longrightarrow> chain_unbound store (tail (store a)) nm
     \<Longrightarrow> chain_unbound store (Some a) nm"

text \<open>The current frame's closure lists the name as local and the frame does not bind it yet.\<close>

definition local_not_yet_bound :: "Context \<Rightarrow> nat \<Rightarrow> string \<Rightarrow> bool" where
  "local_not_yet_bound ctx a nm =
     ((case closure (envStore ctx a) of None \<Rightarrow> False | Some c \<Rightarrow> nm \<in> localVariables c)
      \<and> head (envStore ctx a) nm = None)"


text \<open>
  The slot \<open>i\<close> of the Stash from its top, as \<open>pop\<close> finds it: \<open>None\<close> when the Stash is
  shorter or holds \<open>undefined\<close> there.
\<close>

definition stash_slot :: "nat \<Rightarrow> Context \<Rightarrow> Value option" where
  "stash_slot i ctx = (if i < length (stash ctx) then stash ctx ! i else None)"

text \<open>
  The current frame's closure lists the name as local and the frame binds the name
  \<open>hasOwnProperty\<close>.
\<close>

definition hasOwnProperty_shadowed :: "Context \<Rightarrow> nat \<Rightarrow> string \<Rightarrow> bool" where
  "hasOwnProperty_shadowed ctx a nm =
     ((case closure (envStore ctx a) of None \<Rightarrow> False | Some c \<Rightarrow> nm \<in> localVariables c)
      \<and> head (envStore ctx a) ''hasOwnProperty'' \<noteq> None)"


declare pyGenerateCSEMachineStateStream.simps [code]
declare lookupChain.simps [code]


section \<open>Example programs and contexts\<close>

text \<open>The program \<open>1\<close>.\<close>

definition program_one :: stmt where
  "program_one = FileInput [SimpleExpr (BigIntLiteral ''1'')]"

text \<open>The program \<open>print(1)\<close>, \<open>2\<close>.\<close>

definition program_print :: stmt where
  "program_print =
     FileInput [SimpleExpr (Call (Variable ''print'') [BigIntLiteral ''1'']),
                SimpleExpr (BigIntLiteral ''2'')]"

text \<open>The program \<open>1 / 0\<close>.\<close>

definition program_div0 :: stmt where
  "program_div0 = FileInput [SimpleExpr (Binary (BigIntLiteral ''1'') SLASH (BigIntLiteral ''0''))]"

text \<open>The program \<open>True or 1 / 0\<close>.\<close>

definition program_or :: stmt where
  "program_or =
     FileInput [SimpleExpr (BoolOp (Literal (LitBoolean True)) OR
                  (Binary (BigIntLiteral ''1'') SLASH (BigIntLiteral ''0'')))]"

text \<open>
  A context inside a call of \<open>def g(): y = 5\<close>: the frame of \<open>g\<close> at address 1, still
  empty, above the global frame, which binds \<open>x\<close> to 1.
\<close>

definition example_frames :: Context where
  "example_frames =
     new_PyContext
       \<lparr>environments := [1, 0],
        envStore := (\<lambda>a. if a = 0
           then globalEnvironment\<lparr>head := [''x'' \<mapsto> Some (VBigInt 1)]\<rparr>
           else \<lparr>name = ''g'', tail = Some 0, head = Map.empty, env_id = ''1'',
                 closure = Some \<lparr>closure_id = ''0'',
                   node = FunctionDefNode ''g'' [] [Assign ''y'' (BigIntLiteral ''5'')],
                   environment = Some 0, localVariables = {''y''}\<rparr>\<rparr>),
        envCount := 2\<rparr>"


text \<open>
  The program \<open>def f(x): return x\<close>, \<open>f() or 1\<close>: the call gives \<open>f\<close> no argument.
\<close>

definition program_missing_argument :: stmt where
  "program_missing_argument =
     FileInput [FunctionDef ''f'' [''x''] [Return (Some (Variable ''x''))],
                SimpleExpr (BoolOp (Call (Variable ''f'') []) OR (BigIntLiteral ''1''))]"

text \<open>The programs \<open>0 or 2\<close> and \<open>0 and 2\<close>.\<close>

definition program_zero_or_two :: stmt where
  "program_zero_or_two =
     FileInput [SimpleExpr (BoolOp (BigIntLiteral ''0'') OR (BigIntLiteral ''2''))]"

definition program_zero_and_two :: stmt where
  "program_zero_and_two =
     FileInput [SimpleExpr (BoolOp (BigIntLiteral ''0'') AND (BigIntLiteral ''2''))]"

text \<open>
  A function that assigns a local variable and returns it, called once: the variable is
  named \<open>hasOwnProperty\<close> in the first program and \<open>y\<close> in the second.

  \<open>def f():\<close>
  \<open>    hasOwnProperty = 1\<close>
  \<open>    return hasOwnProperty\<close>
  \<open>f()\<close>
\<close>

definition program_local :: "string \<Rightarrow> stmt" where
  "program_local v =
     FileInput [FunctionDef ''f'' [] [Assign v (BigIntLiteral ''1''), Return (Some (Variable v))],
                SimpleExpr (Call (Variable ''f'') [])]"

definition program_local_hasOwnProperty :: stmt where
  "program_local_hasOwnProperty = program_local ''hasOwnProperty''"

definition program_local_y :: stmt where
  "program_local_y = program_local ''y''"


text \<open>A front end that has parsed the chunk into the given program.\<close>

definition parsed_as :: "stmt \<Rightarrow> string \<Rightarrow> Context \<Rightarrow> exn + stmt \<times> Context" where
  "parsed_as program chunk ctx = Inr (program, ctx)"


text \<open>
  A block indented by eight spaces, \<open>if 1:\<close> followed by the line \<open>2\<close>: without a final
  line break, and as \<open>runPyAST\<close> hands it to the tokenizer, with one appended.
\<close>

definition block_of_eight :: string where
  "block_of_eight = ''if 1:'' @ [LF] @ ''        2''"

definition block_of_eight_script :: string where
  "block_of_eight_script = block_of_eight @ [LF]"

text \<open>The same block indented by four spaces.\<close>

definition block_of_four_script :: string where
  "block_of_four_script = ''if 1:'' @ [LF] @ ''    2'' @ [LF]"


section \<open>Properties\<close>

lemmas TokenType_defs =
  ENDMARKER_def NAME_def NUMBER_def BIGINT_def STRING_def NEWLINE_def INDENT_def DEDENT_def
  LPAR_def RPAR_def COLON_def DOUBLECOLON_def COMMA_def PLUS_def MINUS_def BANG_def STAR_def
  SLASH_def LESS_def GREATER_def EQUAL_def PERCENT_def DOUBLEEQUAL_def NOTEQUAL_def
  LESSEQUAL_def GREATEREQUAL_def DOUBLESTAR_def COMPLEX_def AND_def OR_def FOR_def WHILE_def
  NONE_def TRUE_def FALSE_def IS_def NOT_def ISNOT_def PASS_def DEF_def LAMBDA_def FROM_def
  DOUBLESLASH_def BREAK_def CONTINUE_def RETURN_def ASSERT_def IMPORT_def GLOBAL_def
  NONLOCAL_def IF_def ELSE_def ELIF_def IN_def NOTIN_def


subsection \<open>Floor division and modulo on BigInt\<close>

text \<open>
  \<open>pythonMod\<close> on BigInts is the floored modulo: the host's truncating remainder,
  moved by one divisor when its sign differs from the divisor's.
\<close>

lemma pythonMod_bigint_mod:
  assumes "b \<noteq> 0"
  shows "pythonMod_bigint a b = a mod b"
proof -
  consider (pp) "0 \<le> a" "0 < b" | (pn) "0 \<le> a" "b < 0" | (np) "a < 0" "0 < b" | (nn) "a < 0" "b < 0"
    using assms by linarith
  then show ?thesis
  proof cases
    case pp
    then have m: "bigint_rem a b = a mod b"
      by (cases "a = 0") (simp_all add: bigint_rem_def)
    have "\<not> a mod b < 0" using pp by (simp add: not_less)
    then show ?thesis using pp unfolding pythonMod_bigint_def Let_def m by simp
  next
    case pn
    have m: "bigint_rem a b = a mod (- b)"
      using pn by (cases "a = 0") (simp_all add: bigint_rem_def)
    have z: "a mod (- b) = (if a mod b = 0 then 0 else a mod b - b)"
      by (rule zmod_zminus2_eq_if)
    have "b < a mod b" using pn by simp
    then show ?thesis using pn unfolding pythonMod_bigint_def Let_def m z by simp
  next
    case np
    have m: "bigint_rem a b = - ((- a) mod b)"
      using np by (simp add: bigint_rem_def)
    have z: "(- a) mod b = (if a mod b = 0 then 0 else b - a mod b)"
      by (rule zmod_zminus1_eq_if)
    have "a mod b < b" using np by simp
    then show ?thesis using np unfolding pythonMod_bigint_def Let_def m z by simp
  next
    case nn
    have m: "bigint_rem a b = - ((- a) mod (- b))"
      using nn by (simp add: bigint_rem_def)
    have z: "(- a) mod (- b) = - (a mod b)"
      by (rule mod_minus_minus)
    have "\<not> 0 < a mod b" using nn by (simp add: not_less)
    then show ?thesis using nn unfolding pythonMod_bigint_def Let_def m z by simp
  qed
qed

lemma bigint_div_exact:
  assumes "b \<noteq> 0"
  shows "bigint_div (b * q) b = q"
proof -
  have d: "\<bar>b * q\<bar> div \<bar>b\<bar> = \<bar>q\<bar>" using assms by (simp add: abs_mult)
  have s: "sgn (b * q) * sgn b = sgn q"
    using assms by (cases "0 < b"; cases "0 < q"; cases "q = 0")
      (auto simp: sgn_if mult_less_0_iff zero_less_mult_iff)
  have "bigint_div (b * q) b = sgn q * \<bar>q\<bar>"
    unfolding bigint_div_def d s ..
  then show ?thesis by (simp add: mult_sgn_abs)
qed

lemma floor_division_bigint:
  assumes "b \<noteq> 0"
  shows "bigint_div (a - pythonMod_bigint a b) b = a div b"
proof -
  have "a - a mod b = b * (a div b)" by (simp add: minus_mod_eq_mult_div)
  then show ?thesis using assms by (simp add: pythonMod_bigint_mod bigint_div_exact)
qed

lemma binop_bigint_floordiv:
  "b \<noteq> 0 \<Longrightarrow>
   evaluateBinaryExpression h ctx DOUBLESLASH (VBigInt a) (VBigInt b) = Inr (VBigInt (a div b))"
  by (simp add: evaluateBinaryExpression_def evaluateBinaryExpression_numeric_def is_arithmetic_def
      operand_type_def TokenType_defs floor_division_bigint)

lemma binop_bigint_mod:
  "b \<noteq> 0 \<Longrightarrow>
   evaluateBinaryExpression h ctx PERCENT (VBigInt a) (VBigInt b) = Inr (VBigInt (a mod b))"
  by (simp add: evaluateBinaryExpression_def evaluateBinaryExpression_numeric_def is_arithmetic_def
      operand_type_def TokenType_defs pythonMod_bigint_mod)

text \<open>
  C2. For all BigInt values \<open>a\<close> and \<open>b\<close> with \<open>b \<noteq> 0\<close>, the machine's \<open>//\<close> and \<open>%\<close>
  return BigInts \<open>q\<close> and \<open>r\<close> with \<open>a = q * b + r\<close>, and \<open>r\<close> is zero or has the sign of
  the divisor \<open>b\<close>. (They are the floored quotient and remainder, HOL's \<open>div\<close> and \<open>mod\<close>.)
\<close>

theorem C2_floor_division_identity:
  assumes "b \<noteq> 0"
  shows "\<exists>q r. evaluateBinaryExpression h ctx DOUBLESLASH (VBigInt a) (VBigInt b) = Inr (VBigInt q)
           \<and> evaluateBinaryExpression h ctx PERCENT (VBigInt a) (VBigInt b) = Inr (VBigInt r)
           \<and> q = a div b \<and> r = a mod b
           \<and> a = q * b + r
           \<and> (sgn r = 0 \<or> sgn r = sgn b)"
proof -
  have "sgn (a mod b) = 0 \<or> sgn (a mod b) = sgn b"
  proof (cases "0 < b")
    case True
    then have "\<not> a mod b < 0" by (simp add: not_less)
    then show ?thesis using True by (simp add: sgn_if)
  next
    case False
    then have "b < 0" using assms by simp
    then have "\<not> 0 < a mod b" by (simp add: not_less)
    then show ?thesis using \<open>b < 0\<close> by (simp add: sgn_if)
  qed
  then show ?thesis
    using assms by (simp add: binop_bigint_floordiv binop_bigint_mod)
qed

theorem C2_floor_division_identity_witness:
  "(- 3 :: int) \<noteq> 0
   \<and> evaluateBinaryExpression ref_host new_PyContext DOUBLESLASH (VBigInt 10) (VBigInt (- 3)) = Inr (VBigInt (- 4))
   \<and> evaluateBinaryExpression ref_host new_PyContext PERCENT (VBigInt 10) (VBigInt (- 3)) = Inr (VBigInt (- 2))"
  using C2_floor_division_identity [of "- 3" ref_host new_PyContext 10] by simp

subsection \<open>Numeric operands of binary expressions\<close>

lemma numeric_dispatch:
  "is_numeric l \<Longrightarrow> is_numeric r \<Longrightarrow>
   evaluateBinaryExpression h ctx operator l r = evaluateBinaryExpression_numeric h ctx operator l r"
  by (cases l; cases r) (simp_all add: evaluateBinaryExpression_def)

text \<open>
  What holds of the arithmetic operators on BigInt and Float operands: a Float operand
  gives a Float, two BigInts give a BigInt, except for \<open>/\<close> and for \<open>**\<close> with a negative
  exponent, which give a Float; a zero divisor gives \<open>ZeroDivisionError\<close> instead.
\<close>

lemma float_operand_gives_float:
  assumes "is_arithmetic operator" "is_numeric l" "is_numeric r"
    and "(\<exists>x. l = VNumber x) \<or> (\<exists>y. r = VNumber y)"
  shows "(\<exists>n. evaluateBinaryExpression h ctx operator l r = Inr (VNumber n))
       \<or> evaluateBinaryExpression h ctx operator l r = pyHandleRuntimeError ctx ZeroDivisionError"
  using assms
  by (cases l; cases r)
     (auto simp: evaluateBinaryExpression_def evaluateBinaryExpression_numeric_def operand_type_def Let_def)

lemma bigint_operands_give_bigint:
  assumes "is_arithmetic operator" "operator \<noteq> SLASH" "\<not> (operator = DOUBLESTAR \<and> b < 0)"
  shows "(\<exists>i. evaluateBinaryExpression h ctx operator (VBigInt a) (VBigInt b) = Inr (VBigInt i))
       \<or> evaluateBinaryExpression h ctx operator (VBigInt a) (VBigInt b)
           = pyHandleRuntimeError ctx ZeroDivisionError"
  using assms
  by (auto simp: evaluateBinaryExpression_def evaluateBinaryExpression_numeric_def operand_type_def
      is_arithmetic_def Let_def)

lemma bigint_true_division_gives_float:
  "b \<noteq> 0 \<Longrightarrow>
   evaluateBinaryExpression h ctx SLASH (VBigInt a) (VBigInt b)
     = Inr (VNumber (h_div h (h_numberOfBigInt h a) (h_numberOfBigInt h b)))"
  by (simp add: evaluateBinaryExpression_def evaluateBinaryExpression_numeric_def operand_type_def
      is_arithmetic_def TokenType_defs)

lemma bigint_negative_power_gives_float:
  "b < 0 \<Longrightarrow> a \<noteq> 0 \<Longrightarrow>
   evaluateBinaryExpression h ctx DOUBLESTAR (VBigInt a) (VBigInt b)
     = Inr (VNumber (h_pow h (h_numberOfBigInt h a) (h_numberOfBigInt h b)))"
  by (simp add: evaluateBinaryExpression_def evaluateBinaryExpression_numeric_def operand_type_def
      is_arithmetic_def TokenType_defs)

text \<open>
  A Bool operand is given the type \<open>number\<close>, so it makes the result a Float whatever the
  other numeric operand is.
\<close>

lemma bool_operand_gives_float:
  assumes "is_arithmetic operator" "is_numeric r"
  shows "(\<exists>n. evaluateBinaryExpression h ctx operator (VBool b) r = Inr (VNumber n))
       \<or> evaluateBinaryExpression h ctx operator (VBool b) r = pyHandleRuntimeError ctx ZeroDivisionError"
  using assms
  by (cases r)
     (auto simp: evaluateBinaryExpression_def evaluateBinaryExpression_numeric_def operand_type_def Let_def)

text \<open>
  C1. The claim has \<open>True + 1\<close> evaluate on integers, to the BigInt 2. The code gives the
  Bool the type \<open>number\<close> and the sum is the Float 2, while unary minus and plus turn a
  Bool into a BigInt.
\<close>

theorem C1_bool_plus_bigint_is_float:
  "evaluateBinaryExpression ref_host new_PyContext PLUS (VBool True) (VBigInt 1) = Inr (VNumber (Fin 2))
   \<and> evaluateUnaryExpression new_PyContext PLUS (VBool True) = Inr (VBigInt 1)"
  by (simp add: evaluateBinaryExpression_def evaluateBinaryExpression_numeric_def is_arithmetic_def
      operand_type_def evaluateUnaryExpression_def TokenType_defs ref_host_def)


subsection \<open>Identity and membership operators\<close>

text \<open>
  C9. On numeric operands (BigInt, Float or Bool) the operators \<open>is\<close>, \<open>is not\<close>, \<open>in\<close>
  and \<open>not in\<close> make \<open>evaluateBinaryExpression\<close> return the error value with message
  \<open>todo error\<close>; the \<open>Compare\<close> node schedules the operands and the binary instruction,
  which pushes that value on the Stash and leaves the rest of the context, \<open>errors\<close>
  included, as it was.
\<close>

theorem C9_identity_membership_todo_error:
  assumes "is_numeric l" "is_numeric r"
    and "operator = IS \<or> operator = ISNOT \<or> operator = IN \<or> operator = NOTIN"
  shows "evaluateBinaryExpression h ctx operator l r = Inr (VError ''todo error'')
       \<and> cmd_expr h (Compare a operator b) ctx
           = Some (Inr (ctx\<lparr>control := ExprItem a # ExprItem b # InstrItem (BinOpInstr operator) # control ctx\<rparr>))
       \<and> cmd_instr h (BinOpInstr operator) (ctx\<lparr>stash := Some r # Some l # st\<rparr>)
           = Inr (ctx\<lparr>stash := Some (VError ''todo error'') # st\<rparr>)"
proof -
  have e: "evaluateBinaryExpression h c operator l r = Inr (VError ''todo error'')" for c
    using assms
    by (auto simp: numeric_dispatch evaluateBinaryExpression_numeric_def is_arithmetic_def
        is_comparison_def TokenType_defs)
  show ?thesis by (simp add: e pop_def stash_push_def control_push_def)
qed

theorem C9_identity_membership_todo_error_witness:
  "is_numeric (VBigInt 1) \<and> is_numeric (VNumber (Fin 2))
   \<and> evaluateBinaryExpression ref_host new_PyContext IS (VBigInt 1) (VNumber (Fin 2)) = Inr (VError ''todo error'')
   \<and> errors new_PyContext = []
   \<and> map_sum fst (\<lambda>c. (stash c, errors c))
        (cmd_instr ref_host (BinOpInstr IS) (new_PyContext\<lparr>stash := [Some (VNumber (Fin 2)), Some (VBigInt 1)]\<rparr>))
       = Inr ([Some (VError ''todo error'')], [])"
  using C9_identity_membership_todo_error [of "VBigInt 1" "VNumber (Fin 2)" IS ref_host new_PyContext
      NoneExpr NoneExpr "[]"]
  by (simp add: new_PyContext_def)


subsection \<open>The built-in \<open>_int\<close>\<close>

lemma trunc_to_bigint: "bigint_of_number (num_trunc (Fin a)) = Inr (rat_trunc a)"
proof (cases "- 1 < a \<and> a < 0")
  case True
  then have "\<lceil>a\<rceil> = 0" by (simp add: ceiling_eq_iff)
  then show ?thesis using True by (simp add: rat_trunc_def)
next
  case False
  then show ?thesis by auto
qed

text \<open>\<open>rat_trunc\<close> rounds toward zero: it is within one of its argument and no larger in size.\<close>

lemma rat_trunc_toward_zero:
  "\<bar>of_int (rat_trunc a)\<bar> \<le> \<bar>a\<bar> \<and> \<bar>a - of_int (rat_trunc a)\<bar> < 1"
  unfolding rat_trunc_def by (auto; linarith)

lemma int_no_argument: "BuiltInFunctions_int ctx [] = Inr (VBigInt 0)"
  by (simp add: BuiltInFunctions_int_def)

lemma int_of_float:
  "BuiltInFunctions_int ctx (Some (VNumber (Fin a)) # rest) = Inr (VBigInt (rat_trunc a))"
  unfolding BuiltInFunctions_int_def
  by (simp add: trunc_to_bigint del: num_trunc.simps bigint_of_number.simps)

lemma int_of_negative_zero:
  "BuiltInFunctions_int ctx (Some (VNumber NegZero) # rest) = Inr (VBigInt 0)"
  by (simp add: BuiltInFunctions_int_def)

lemma int_of_bigint: "BuiltInFunctions_int ctx (Some (VBigInt i) # rest) = Inr (VBigInt i)"
  by (simp add: BuiltInFunctions_int_def)

lemma int_of_other:
  "type_tag v \<noteq> Some ''number'' \<Longrightarrow> type_tag v \<noteq> Some ''bigint'' \<Longrightarrow>
   \<exists>m. BuiltInFunctions_int ctx (Some v # rest) = Inr (VError (''TypeError: '' @ m))"
  by (cases v) (simp_all add: BuiltInFunctions_int_def)

text \<open>
  C10, as stated, fails on a Float that is not finite: \<open>_int\<close> of the positive infinity
  does not return, the host's conversion to BigInt throws a \<open>RangeError\<close>.
\<close>

theorem C10_int_of_infinity_throws:
  "BuiltInFunctions_int new_PyContext [Some (VNumber PInf)]
     = Inl (JsRangeError ''The number Infinity cannot be converted to a BigInt because it is not an integer'',
            new_PyContext)"
  by (simp add: BuiltInFunctions_int_def throw_def not_an_integer_def)

text \<open>
  C10, amended. \<open>_int\<close> returns BigInt 0 when called with no argument; with a finite
  Float argument (the negative zero included) it returns the BigInt obtained by truncating
  toward zero; with a BigInt argument it returns that value; with a value of any other
  type it returns an error value whose message starts with \<open>TypeError\<close>, and raises
  nothing.
\<close>

theorem C10_int:
  "BuiltInFunctions_int ctx [] = Inr (VBigInt 0)
   \<and> BuiltInFunctions_int ctx (Some (VNumber (Fin a)) # rest) = Inr (VBigInt (rat_trunc a))
   \<and> BuiltInFunctions_int ctx (Some (VNumber NegZero) # rest) = Inr (VBigInt 0)
   \<and> BuiltInFunctions_int ctx (Some (VBigInt i) # rest) = Inr (VBigInt i)
   \<and> (type_tag v \<noteq> Some ''number'' \<and> type_tag v \<noteq> Some ''bigint'' \<longrightarrow>
        (\<exists>m. BuiltInFunctions_int ctx (Some v # rest) = Inr (VError (''TypeError: '' @ m))))"
  using int_no_argument int_of_float int_of_negative_zero int_of_bigint int_of_other by blast

theorem C10_int_witness:
  "type_tag (VString ''7'') \<noteq> Some ''number'' \<and> type_tag (VString ''7'') \<noteq> Some ''bigint''
   \<and> BuiltInFunctions_int new_PyContext [Some (VNumber (Fin (- 7 / 2)))] = Inr (VBigInt (- 3))
   \<and> (\<exists>m. BuiltInFunctions_int new_PyContext [Some (VString ''7'')] = Inr (VError (''TypeError: '' @ m)))"
proof -
  have "\<lceil>- (7 / 2) :: rat\<rceil> = - 3" by (simp add: ceiling_eq_iff)
  then show ?thesis
    using C10_int [of new_PyContext "- 7 / 2" "[]" 0 "VString ''7''"]
    by (simp add: rat_trunc_def)
qed


subsection \<open>Boolean operators\<close>

text \<open>
  C3, as the claim states it: the \<open>BoolOp\<close> instruction returns the left or the right
  operand. In \<open>f() or 1\<close>, where \<open>f\<close> returns its parameter and is called without an
  argument, the left operand is the host's \<open>undefined\<close>: the instruction pops both
  operands and pushes nothing, so the run ends with an empty Stash where the claim has
  the right operand \<open>1\<close>.
\<close>

theorem C3_undefined_operand:
  "map_option (map_sum fst (\<lambda>(v, c, n). (v, stash c)))
     (pyRunCSEMachine ref_host (new_PyContext\<lparr>control := [StmtItem program_missing_argument]\<rparr>)
        100000 100000 False)
   = Some (Inr (VUndefined, []))"
  by code_simp

text \<open>
  C3, amended. For \<open>and\<close> and \<open>or\<close>, the \<open>BoolOp\<close> node puts both operands on the Control
  above the \<open>BoolOp\<close> instruction, the left one on top; the instruction pops right, then
  left. When both are values it pushes left if the operator is \<open>or\<close> and left is truthy or
  the operator is \<open>and\<close> and left is falsy, and right otherwise; when one of them is
  \<open>undefined\<close> it pushes nothing.
\<close>

theorem C3_boolop:
  assumes "operator = AND \<or> operator = OR"
  shows "cmd_expr h (BoolOp l operator r) ctx
           = Some (Inr (ctx\<lparr>control := ExprItem l # ExprItem r # InstrItem (BoolOpInstr operator) # control ctx\<rparr>))
       \<and> cmd_instr h (BoolOpInstr operator) ctx
           = Inr (ctx\<lparr>stash :=
                (case (stash_slot 1 ctx, stash_slot 0 ctx) of
                   (Some left, Some right) \<Rightarrow>
                     [Some (if (operator = OR \<and> \<not> isFalsy left) \<or> (operator = AND \<and> isFalsy left)
                            then left else right)]
                 | _ \<Rightarrow> []) @ drop 2 (stash ctx)\<rparr>)"
proof
  show "cmd_expr h (BoolOp l operator r) ctx
          = Some (Inr (ctx\<lparr>control := ExprItem l # ExprItem r # InstrItem (BoolOpInstr operator) # control ctx\<rparr>))"
    by (simp add: control_push_def)
next
  show "cmd_instr h (BoolOpInstr operator) ctx
          = Inr (ctx\<lparr>stash :=
               (case (stash_slot 1 ctx, stash_slot 0 ctx) of
                  (Some left, Some right) \<Rightarrow>
                    [Some (if (operator = OR \<and> \<not> isFalsy left) \<or> (operator = AND \<and> isFalsy left)
                           then left else right)]
                | _ \<Rightarrow> []) @ drop 2 (stash ctx)\<rparr>)"
  proof (cases "stash ctx")
    case Nil
    then show ?thesis
      by (simp add: pop_def stash_slot_def)
  next
    case (Cons right st1)
    show ?thesis
    proof (cases st1)
      case Nil
      with Cons show ?thesis
        by (cases right) (simp_all add: pop_def stash_slot_def)
    next
      case (Cons left st2)
      with \<open>stash ctx = right # st1\<close> assms show ?thesis
        by (cases right; cases left)
           (auto simp: pop_def stash_slot_def stash_push_def evaluateBoolExpression_def TokenType_defs)
    qed
  qed
qed

theorem C3_boolop_witness:
  "(OR = AND \<or> OR = OR)
   \<and> map_sum fst stash
        (cmd_instr ref_host (BoolOpInstr OR) (new_PyContext\<lparr>stash := [Some (VBigInt 2), Some (VBigInt 0)]\<rparr>))
       = Inr [Some (VBigInt 2)]
   \<and> map_sum fst stash
        (cmd_instr ref_host (BoolOpInstr AND) (new_PyContext\<lparr>stash := [Some (VBigInt 2), Some (VBigInt 0)]\<rparr>))
       = Inr [Some (VBigInt 0)]
   \<and> map_sum fst stash
        (cmd_instr ref_host (BoolOpInstr OR) (new_PyContext\<lparr>stash := [Some (VBigInt 7), Some (VBool True)]\<rparr>))
       = Inr [Some (VBool True)]
   \<and> map_sum fst stash
        (cmd_instr ref_host (BoolOpInstr AND) (new_PyContext\<lparr>stash := [Some (VBigInt 7), Some (VBool True)]\<rparr>))
       = Inr [Some (VBigInt 7)]
   \<and> map_sum fst stash
        (cmd_instr ref_host (BoolOpInstr OR) (new_PyContext\<lparr>stash := [Some (VBigInt 1), None]\<rparr>))
       = Inr []"
  using C3_boolop [of OR ref_host NoneExpr NoneExpr "new_PyContext\<lparr>stash := [Some (VBigInt 2), Some (VBigInt 0)]\<rparr>"]
    C3_boolop [of AND ref_host NoneExpr NoneExpr "new_PyContext\<lparr>stash := [Some (VBigInt 2), Some (VBigInt 0)]\<rparr>"]
    C3_boolop [of OR ref_host NoneExpr NoneExpr "new_PyContext\<lparr>stash := [Some (VBigInt 7), Some (VBool True)]\<rparr>"]
    C3_boolop [of AND ref_host NoneExpr NoneExpr "new_PyContext\<lparr>stash := [Some (VBigInt 7), Some (VBool True)]\<rparr>"]
    C3_boolop [of OR ref_host NoneExpr NoneExpr "new_PyContext\<lparr>stash := [Some (VBigInt 1), None]\<rparr>"]
  by (simp add: TokenType_defs stash_slot_def)

text \<open>
  Whole runs with a falsy left operand: \<open>0 or 2\<close> is \<open>2\<close> and \<open>0 and 2\<close> is \<open>0\<close>.
\<close>

lemma boolop_falsy_left_runs:
  "map_option (map_sum fst (\<lambda>(v, c, n). v))
     (pyRunCSEMachine ref_host (new_PyContext\<lparr>control := [StmtItem program_zero_or_two]\<rparr>)
        100000 100000 False)
   = Some (Inr (VBigInt 2))
   \<and> map_option (map_sum fst (\<lambda>(v, c, n). v))
     (pyRunCSEMachine ref_host (new_PyContext\<lparr>control := [StmtItem program_zero_and_two]\<rparr>)
        100000 100000 False)
   = Some (Inr (VBigInt 0))"
  by code_simp

text \<open>
  Both operands are evaluated whatever the left one is: \<open>True or 1 / 0\<close> ends in
  \<open>ZeroDivisionError\<close>.
\<close>

lemma boolop_evaluates_right_operand:
  "map_option (map_sum fst (\<lambda>(v, c, n). v))
     (pyRunCSEMachine ref_host (new_PyContext\<lparr>control := [StmtItem program_or]\<rparr>) 100000 100000 False)
   = Some (Inl ZeroDivisionError)"
  by code_simp


subsection \<open>Name lookup\<close>

lemma lookupChain_resolves:
  "resolves store e nm slot \<Longrightarrow> lookupChain store e nm = Some (Bound slot)"
  by (induction rule: resolves.induct) (simp_all add: lookupChain.simps)

lemma lookupChain_unbound:
  "chain_unbound store e nm \<Longrightarrow> lookupChain store e nm = Some Unbound"
  by (induction rule: chain_unbound.induct) (simp_all add: lookupChain.simps)

lemma lookupChain_sound:
  assumes "lookupChain store e nm = Some y"
  shows "(y = Unbound \<longrightarrow> chain_unbound store e nm)
       \<and> (\<forall>slot. y = Bound slot \<longrightarrow> resolves store e nm slot)"
proof (rule lookupChain.raw_induct [OF _ assms], goal_cases)
  case (1 lookupChain' store e nm y)
  then show ?case
    by (auto split: option.splits intro: chain_unbound.intros resolves.intros)
qed

lemma lookupChain_Unbound_chain:
  "lookupChain store e nm = Some Unbound \<Longrightarrow> chain_unbound store e nm"
  using lookupChain_sound by blast

text \<open>
  Name lookup in the current frame \<open>a\<close>, but for the case where the frame's closure has
  the name among its local variables and the frame binds \<open>hasOwnProperty\<close>: if the
  closure has the name among its local variables and the frame's head does not bind it,
  the lookup fails with \<open>UnboundLocalError\<close>. Otherwise the name resolves to its binding
  in the nearest frame along the tail pointers, then to the built-in of that name, and
  fails with \<open>NameError\<close> when neither exists; and \<open>NameError\<close> arises in no other case.
\<close>

lemma pyGetVariable_resolution:
  assumes "currentEnvironment ctx = Some a" and "\<not> hasOwnProperty_shadowed ctx a nm"
  shows "(local_not_yet_bound ctx a nm \<longrightarrow>
            pyGetVariable ctx nm = Some (Inl (UnboundLocalError nm, ctx)))
       \<and> (\<not> local_not_yet_bound ctx a nm \<longrightarrow>
            (\<forall>slot. resolves (envStore ctx) (Some a) nm slot \<longrightarrow> pyGetVariable ctx nm = Some (Inr slot))
          \<and> (\<forall>f. chain_unbound (envStore ctx) (Some a) nm \<and> builtIns nm = Some f \<longrightarrow>
                 pyGetVariable ctx nm = Some (Inr (Some (VBuiltin f))))
          \<and> (chain_unbound (envStore ctx) (Some a) nm \<and> builtIns nm = None \<longrightarrow>
                 pyGetVariable ctx nm = Some (Inl (NameError nm, ctx))))
       \<and> (\<forall>x c. pyGetVariable ctx nm = Some (Inl (NameError x, c)) \<longrightarrow>
            chain_unbound (envStore ctx) (Some a) nm \<and> builtIns nm = None)"
proof (intro conjI impI allI)
  assume "local_not_yet_bound ctx a nm"
  then show "pyGetVariable ctx nm = Some (Inl (UnboundLocalError nm, ctx))"
    using assms
    by (simp add: pyGetVariable_def local_not_yet_bound_def hasOwnProperty_shadowed_def throw_def)
next
  fix slot
  assume "\<not> local_not_yet_bound ctx a nm" "resolves (envStore ctx) (Some a) nm slot"
  then show "pyGetVariable ctx nm = Some (Inr slot)"
    using assms lookupChain_resolves [of "envStore ctx" "Some a" nm slot]
    by (auto simp: pyGetVariable_def local_not_yet_bound_def hasOwnProperty_shadowed_def)
next
  fix f
  assume "\<not> local_not_yet_bound ctx a nm"
    "chain_unbound (envStore ctx) (Some a) nm \<and> builtIns nm = Some f"
  then show "pyGetVariable ctx nm = Some (Inr (Some (VBuiltin f)))"
    using assms lookupChain_unbound [of "envStore ctx" "Some a" nm]
    by (auto simp: pyGetVariable_def local_not_yet_bound_def hasOwnProperty_shadowed_def)
next
  assume "\<not> local_not_yet_bound ctx a nm"
    "chain_unbound (envStore ctx) (Some a) nm \<and> builtIns nm = None"
  then show "pyGetVariable ctx nm = Some (Inl (NameError nm, ctx))"
    using assms lookupChain_unbound [of "envStore ctx" "Some a" nm]
    by (auto simp: pyGetVariable_def local_not_yet_bound_def hasOwnProperty_shadowed_def throw_def)
next
  fix x c
  assume "pyGetVariable ctx nm = Some (Inl (NameError x, c))"
  then have "lookupChain (envStore ctx) (Some a) nm = Some Unbound"
    using assms
    by (auto simp: pyGetVariable_def throw_def Let_def split: if_splits option.splits lookup.splits)
  then show "chain_unbound (envStore ctx) (Some a) nm"
    using lookupChain_Unbound_chain by blast
next
  fix x c
  assume "pyGetVariable ctx nm = Some (Inl (NameError x, c))"
  then show "builtIns nm = None"
    using assms
    by (auto simp: pyGetVariable_def throw_def Let_def split: if_splits option.splits lookup.splits)
qed

text \<open>
  In the case left out, whether the frame binds the name or not, the lookup throws the
  host's \<open>TypeError\<close>.
\<close>

lemma pyGetVariable_shadowed:
  assumes "currentEnvironment ctx = Some a" and "hasOwnProperty_shadowed ctx a nm"
  shows "pyGetVariable ctx nm
           = Some (Inl (JsTypeError ''env.head.hasOwnProperty is not a function'', ctx))"
  using assms by (simp add: pyGetVariable_def hasOwnProperty_shadowed_def throw_def)

lemma example_frames_current: "currentEnvironment example_frames = Some 1"
  by (simp add: example_frames_def currentEnvironment_def new_PyContext_def)

lemma example_frames_lookups:
  "pyGetVariable example_frames ''y'' = Some (Inl (UnboundLocalError ''y'', example_frames))
   \<and> pyGetVariable example_frames ''x'' = Some (Inr (Some (VBigInt 1)))"
proof -
  have y: "local_not_yet_bound example_frames 1 ''y''"
    by (simp add: example_frames_def local_not_yet_bound_def new_PyContext_def)
  have x: "\<not> local_not_yet_bound example_frames 1 ''x''"
    by (simp add: example_frames_def local_not_yet_bound_def new_PyContext_def)
  have s: "\<not> hasOwnProperty_shadowed example_frames 1 nm" for nm
    by (simp add: example_frames_def hasOwnProperty_shadowed_def new_PyContext_def)
  have r: "resolves (envStore example_frames) (Some 1) ''x'' (Some (VBigInt 1))"
    by (rule resolves_up)
       (simp_all add: example_frames_def new_PyContext_def globalEnvironment_def resolves_here)
  show ?thesis
    using pyGetVariable_resolution [OF example_frames_current s, of "''y''"]
      pyGetVariable_resolution [OF example_frames_current s, of "''x''"] x y r
    by blast
qed

text \<open>
  A call of a function with the local variable \<open>y\<close> assigned and then read returns its
  value.
\<close>

lemma local_variable_run:
  "map_option (map_sum fst (\<lambda>(v, c, n). v))
     (pyRunCSEMachine ref_host (new_PyContext\<lparr>control := [StmtItem program_local_y]\<rparr>)
        100000 100000 False)
   = Some (Inr (VBigInt 1))"
  by code_simp

text \<open>
  C4. The claim resolves a name that the current frame binds to the value bound there.
  The same call with the local variable named \<open>hasOwnProperty\<close> ends, at the lookup of
  the variable the frame binds to 1, in the host's \<open>TypeError\<close>.
\<close>

theorem C4_local_hasOwnProperty:
  "map_option (map_sum fst (\<lambda>(v, c, n). v))
     (pyRunCSEMachine ref_host (new_PyContext\<lparr>control := [StmtItem program_local_hasOwnProperty]\<rparr>)
        100000 100000 False)
   = Some (Inl (JsTypeError ''env.head.hasOwnProperty is not a function''))"
  by code_simp


subsection \<open>Foreign closures\<close>

text \<open>
  \<open>JsClosure.call\<close> already marshals the host's result; \<open>Application\<close> marshals what it
  gets back once more, and \<open>marshalToPy\<close> accepts no object. So no application of a
  foreign closure pushes a value: each one throws.
\<close>

lemma marshal_twice: "marshalToPy (as_host v) \<noteq> Inr w"
  by (cases v) simp_all

lemma foreign_application_throws:
  "\<exists>e. applyCallable h (Some (VJsClosure i f)) args ctx = Inl (e, ctx)"
proof (cases "JsClosure_call h f args")
  case (Inl e)
  then show ?thesis by (simp add: applyCallable_def throw_def)
next
  case (Inr result)
  then show ?thesis
    by (cases "marshalToPy (as_host result)") (simp_all add: applyCallable_def throw_def marshal_twice)
qed

lemma unmarshal_None_throws: "\<exists>e. unmarshalFromPy (Some VUndefined) = Inl e"
  by simp

text \<open>
  On a Stash holding a foreign closure and the argument BigInt 1, with a host function
  that returns its argument, \<open>Application\<close> pushes nothing and throws.
\<close>

lemma foreign_application_identity:
  "map_sum fst stash
     (cmd_instr ref_host (AppInstr 1)
        (new_PyContext\<lparr>stash := [Some (VBigInt 1), Some (VJsClosure ''0'' 0)]\<rparr>))
   = Inl (JsError (''Marshalling of Javascript type '' @ sq @ ''object is not implemented.''))
   \<and> JsClosure_call ref_host 0 [Some (VBigInt 1)] = Inr (VBigInt 1)"
  by (simp add: pop_def applyCallable_def JsClosure_call_def ref_host_def throw_def)


subsection \<open>The result of a chunk\<close>

lemma representation_toPythonString:
  "representation (PyCSEResultPromise h v) = toPythonString h (Some v)"
  by (cases v) (simp_all add: PyCSEResultPromise_def)

text \<open>
  C6, as stated, fails when the program has printed: for \<open>print(1)\<close> followed by \<open>2\<close>
  the top of the Stash is 2 and what is sent is the accumulated output.
\<close>

theorem C6_output_replaces_result:
  "map_option (\<lambda>(sent, c). (sent, toPythonString ref_host (Some (stash_result c))))
     (evaluateChunk ref_host (parsed_as program_print) defaultOptions new_PyContext
        (''print(1)'' @ [CHR 0x0A] @ ''2''))
   = Some (''1'' @ [CHR 0x0A], ''2'')"
  by code_simp

text \<open>A runtime error is sent as its message alone, without the prefix \<open>Error: \<close>.\<close>

lemma runtime_error_sent_without_prefix:
  "map_option fst (evaluateChunk ref_host (parsed_as program_div0) defaultOptions new_PyContext ''1 / 0'')
   = Some (exn_message ref_host ZeroDivisionError)"
  by code_simp

text \<open>
  C6, amended. For every chunk: an error thrown by the front end is sent as
  \<open>Error: \<close> followed by its message; when the machine throws, the message of the
  exception is sent; when the run ends with a non-empty \<open>output\<close>, that output is sent;
  otherwise the string representation of the top of the Stash (\<open>None\<close> on an empty
  Stash) is sent. A run that does not end sends nothing.
\<close>

theorem C6_chunk_result:
  "evaluateChunk h frontend options ctx chunk =
     (case frontend chunk ctx of
        Inl e \<Rightarrow> Some (''Error: '' @ exn_message h e, ctx)
      | Inr (program, ctx1) \<Rightarrow>
          (case pyRunCSEMachine h (ctx1\<lparr>isRunning := True, control := [StmtItem program]\<rparr>)
                  (envSteps options) (stepLimit options) (isPrelude options) of
             None \<Rightarrow> None
           | Some (Inl (e, ctx2)) \<Rightarrow> Some (exn_message h e, ctx2\<lparr>isRunning := False\<rparr>)
           | Some (Inr (v, ctx2, steps)) \<Rightarrow>
               Some (if py_output ctx2 \<noteq> [] then py_output ctx2
                     else toPythonString h (Some (stash_result ctx2)),
                     ctx2\<lparr>isRunning := False\<rparr>)))"
proof (cases "frontend chunk ctx")
  case (Inl e)
  then show ?thesis by (simp add: evaluateChunk_def)
next
  case (Inr p)
  obtain program ctx1 where p: "p = (program, ctx1)" by (cases p)
  let ?run = "pyRunCSEMachine h (ctx1\<lparr>isRunning := True, control := [StmtItem program]\<rparr>)
                (envSteps options) (stepLimit options) (isPrelude options)"
  show ?thesis
  proof (cases ?run)
    case None
    then show ?thesis
      using Inr p by (simp add: evaluateChunk_def PyRunCSEMachine_def PyEvaluate_def)
  next
    case (Some r)
    show ?thesis
    proof (cases r)
      case (Inl ec)
      obtain e ctx2 where "ec = (e, ctx2)" by (cases ec)
      then show ?thesis
        using Inr p Some Inl
        by (simp add: evaluateChunk_def PyRunCSEMachine_def PyEvaluate_def PyCSEResultPromise_def)
    next
      case (Inr res)
      obtain v ctx2 steps where "res = (v, ctx2, steps)" by (cases res)
      moreover from this have "v = stash_result ctx2"
        using Some Inr
        by (auto simp: pyRunCSEMachine_def split: option.splits sum.splits)
      ultimately show ?thesis
        using \<open>frontend chunk ctx = Inr p\<close> p Some Inr
        by (simp add: evaluateChunk_def PyRunCSEMachine_def PyEvaluate_def representation_toPythonString)
    qed
  qed
qed

theorem C6_chunk_result_witness:
  "map_option fst (evaluateChunk ref_host (parsed_as program_one) defaultOptions new_PyContext ''1'')
   = Some ''1''"
  by (subst C6_chunk_result) code_simp


subsection \<open>The step limit\<close>

text \<open>
  C8. The claim bounds the steps of the main loop by \<open>stepLimit\<close> and \<open>envSteps\<close>. With
  both set to 1, the program \<open>1\<close> runs to its end in 3 steps.
\<close>

theorem C8_steps_exceed_limit:
  "map_option (map_sum fst (\<lambda>(v, c, n). (v, n, envStepsTotal c)))
     (pyRunCSEMachine ref_host (new_PyContext\<lparr>control := [StmtItem program_one]\<rparr>) 1 1 False)
   = Some (Inr (VBigInt 1, 3, 3))"
  by code_simp

subsection \<open>Indentation tokens\<close>

text \<open>
  An increase of the indentation emits \<open>(count - top) div 4\<close> tokens \<open>INDENT\<close> and pushes
  one entry on the indent stack; a decrease emits \<open>(top - count) div 4\<close> tokens \<open>DEDENT\<close>
  and pops one entry for each.
\<close>

lemma count_type_addToken:
  "count_type ty (tokens (addToken ty' t)) = count_type ty (tokens t) + (if ty' = ty then 1 else 0)"
  by (simp add: count_type_def addToken_def Let_def)

lemma indentStack_addToken:
  "indentStack (addToken ty t) = indentStack t"
  by (simp add: addToken_def Let_def)

lemma funpow_addToken:
  "count_type ty (tokens ((addToken ty' ^^ n) t)) = count_type ty (tokens t) + (if ty' = ty then n else 0)
   \<and> indentStack ((addToken ty' ^^ n) t) = indentStack t"
  by (induction n) (simp_all add: count_type_addToken indentStack_addToken)

lemma pushIndents_emits:
  "count_type INDENT (tokens (pushIndents acc tos t)) = count_type INDENT (tokens t) + (acc - tos) div 4"
  "count_type DEDENT (tokens (pushIndents acc tos t)) = count_type DEDENT (tokens t)"
  "indentStack (pushIndents acc tos t) = indentStack t @ [acc]"
  by (simp_all add: pushIndents_def Let_def funpow_addToken INDENT_def DEDENT_def)

lemma funpow_pop:
  "count_type DEDENT (tokens (((\<lambda>u. addToken DEDENT (u\<lparr>indentStack := butlast (indentStack u)\<rparr>)) ^^ n) t))
     = count_type DEDENT (tokens t) + n
   \<and> count_type INDENT (tokens (((\<lambda>u. addToken DEDENT (u\<lparr>indentStack := butlast (indentStack u)\<rparr>)) ^^ n) t))
     = count_type INDENT (tokens t)
   \<and> indentStack (((\<lambda>u. addToken DEDENT (u\<lparr>indentStack := butlast (indentStack u)\<rparr>)) ^^ n) t)
     = take (length (indentStack t) - n) (indentStack t)"
proof (induction n)
  case 0
  show ?case by simp
next
  case (Suc n)
  then show ?case
    by (simp add: count_type_addToken indentStack_addToken INDENT_def DEDENT_def
                  butlast_conv_take)
qed

lemma popDedents_emits:
  "count_type DEDENT (tokens (popDedents acc prev t)) = count_type DEDENT (tokens t) + (prev - acc) div 4"
  "count_type INDENT (tokens (popDedents acc prev t)) = count_type INDENT (tokens t)"
  "indentStack (popDedents acc prev t)
     = take (length (indentStack t) - (prev - acc) div 4) (indentStack t)"
  by (simp_all add: popDedents_def Let_def funpow_pop)

text \<open>
  The loop that unravels the indent stack at the end of the source emits one \<open>DEDENT\<close> for
  each entry above the last \<open>0\<close>, and does not end on a stack without \<open>0\<close>.
\<close>

lemma unravel_None:
  assumes "0 \<notin> set (indentStack t)"
  shows "unravel t = None"
proof -
  have "unravel u = Some v \<Longrightarrow> 0 \<in> set (indentStack u)" for u v
  proof (rule unravel.raw_induct [where P = "\<lambda>u v. 0 \<in> set (indentStack u)"], goal_cases)
    case (1 unravel' u v)
    show ?case
    proof (cases "indentStack u = [] \<or> last (indentStack u) \<noteq> 0")
      case True
      with 1 have "0 \<in> set (indentStack (addToken DEDENT (u\<lparr>indentStack := butlast (indentStack u)\<rparr>)))"
        by simp
      then show ?thesis
        by (auto simp: indentStack_addToken dest: in_set_butlastD)
    next
      case False
      then show ?thesis
        by (metis last_in_set)
    qed
  qed
  with assms show ?thesis
    by (cases "unravel t") auto
qed

lemma unravel_Some:
  assumes "\<forall>x \<in> set xs. x \<noteq> 0"
  shows "\<exists>t'. unravel (t\<lparr>indentStack := ys @ 0 # xs\<rparr>) = Some t'
          \<and> count_type DEDENT (tokens t') = count_type DEDENT (tokens t) + length xs
          \<and> count_type INDENT (tokens t') = count_type INDENT (tokens t)
          \<and> indentStack t' = ys @ [0]"
  using assms
proof (induction xs arbitrary: t rule: rev_induct)
  case Nil
  show ?case
    by (subst unravel.simps) simp
next
  case (snoc x xs)
  let ?u = "addToken DEDENT (t\<lparr>indentStack := ys @ 0 # xs\<rparr>)"
  have step: "unravel (t\<lparr>indentStack := ys @ 0 # xs @ [x]\<rparr>) = unravel ?u"
    using snoc.prems
    by (subst unravel.simps) (simp add: butlast_append)
  have u: "?u = ?u\<lparr>indentStack := ys @ 0 # xs\<rparr>"
    by (simp add: addToken_def Let_def)
  from snoc.IH [of ?u] snoc.prems
  obtain t' where "unravel (?u\<lparr>indentStack := ys @ 0 # xs\<rparr>) = Some t'"
    and "count_type DEDENT (tokens t') = count_type DEDENT (tokens ?u) + length xs"
    and "count_type INDENT (tokens t') = count_type INDENT (tokens ?u)"
    and "indentStack t' = ys @ [0]"
    by auto
  then show ?case
    using step u
    by (simp add: count_type_addToken INDENT_def DEDENT_def)
qed

text \<open>The block indented by four spaces has one \<open>INDENT\<close> and one \<open>DEDENT\<close>.\<close>

lemma block_of_four_balanced:
  "map_option (map_sum id (\<lambda>ts. (count_type INDENT ts, count_type DEDENT ts)))
     (scanEverything block_of_four_script)
   = Some (Inr (1, 1))"
  by code_simp

text \<open>
  Scanning the block indented by eight spaces, with its final line break, leaves the
  indent stack empty: the increase pushed one entry and the decrease popped two.
\<close>

lemma block_of_eight_script_scanned:
  "map_option (map_sum id (\<lambda>t. (map tk_type (tokens t), indentStack t)))
     (scanTokens (new_Tokenizer block_of_eight_script))
   = Some (Inr ([IF, BIGINT, COLON, NEWLINE, INDENT, INDENT, BIGINT, NEWLINE, DEDENT, DEDENT], []))"
  by code_simp

text \<open>
  C7. The claim has as many \<open>DEDENT\<close> as \<open>INDENT\<close> tokens in the token list of every
  well-indented source. For \<open>if 1:\<close> with a block indented by eight spaces,
  \<open>scanEverything\<close> returns two \<open>INDENT\<close> and one \<open>DEDENT\<close>; with the line break that
  \<open>runPyAST\<close> appends, it does not return.
\<close>

theorem C7_block_of_eight:
  "map_option (map_sum id (\<lambda>ts. (map tk_type ts, count_type INDENT ts, count_type DEDENT ts)))
     (scanEverything block_of_eight)
   = Some (Inr ([IF, BIGINT, COLON, NEWLINE, INDENT, INDENT, BIGINT, DEDENT, ENDMARKER], 2, 1))
   \<and> scanEverything block_of_eight_script = None"
proof
  show "map_option (map_sum id (\<lambda>ts. (map tk_type ts, count_type INDENT ts, count_type DEDENT ts)))
          (scanEverything block_of_eight)
        = Some (Inr ([IF, BIGINT, COLON, NEWLINE, INDENT, INDENT, BIGINT, DEDENT, ENDMARKER], 2, 1))"
    by code_simp
next
  from block_of_eight_script_scanned
  obtain t where t: "scanTokens (new_Tokenizer block_of_eight_script) = Some (Inr t)"
    and "indentStack t = []"
    by (cases "scanTokens (new_Tokenizer block_of_eight_script)" rule: option.exhaust)
       (auto simp: map_sum_def split: sum.splits)
  then have "unravel t = None"
    by (simp add: unravel_None)
  with t show "scanEverything block_of_eight_script = None"
    by (simp add: scanEverything_def)
qed

end
